theory Spec2Isabelle
  imports Complex_Main
begin

section \<open>The adsr~ envelope generator: data model\<close>

text \<open>
  A shallow embedding of \<^verbatim>\<open>adsr~.cpp\<close> (the later of the two iterations of the
  file, the one with the Startup phase, the gain and \<^verbatim>\<open>power_lerp\<close>).

  Conventions of the embedding:
  \<^item> a C++ \<^verbatim>\<open>double\<close> is a \<^typ>\<open>real\<close>, and so is the \<^verbatim>\<open>t_floatarg\<close>
    argument of a setter, which stands for a finite number (NaN and the infinities are
    not values of the model). The two places where IEEE arithmetic leaves the finite
    numbers on finite operands are modelled as the value \<open>None\<close>: a division whose
    divisor is zero (the quotient is an infinity or NaN) and the domain and pole errors
    of \<^verbatim>\<open>std::pow\<close>. The program goes on with the infinity or NaN; the model
    stops at the first of them;
  \<^item> the parameter store rounds as the doubles do: the products and the quotient from
    which the sample counts are derived, the literal \<^verbatim>\<open>0.9\<close> and the product and
    the sum of the shape map are rounded to the nearest double by \<open>double_round\<close>.
    The comparisons of \<^verbatim>\<open>std::clamp\<close> are exact, and the subtraction in the
    release setter is written exactly: for a single-precision argument its rounding
    never changes the clamped value. The interpolation of the phase engine is computed
    in the reals, and the decimal literals of the constructor are the decimals as
    written;
  \<^item> a C++ \<^verbatim>\<open>int\<close> is an \<^typ>\<open>int\<close>. The conversion
    \<^verbatim>\<open>static_cast<int>\<close> discards the fractional part; C++ defines it only when
    the result fits the 32 bits of the \<^verbatim>\<open>int\<close>, see \<open>static_cast_int\<close>;
  \<^item> the object \<^verbatim>\<open>t_adsr_tilde\<close> is a record, every function that mutates it
    takes the record and returns the new one;
  \<^item> the function pointer \<^verbatim>\<open>phaseFunc\<close> is a tag naming the bound phase
    function, and calling through it is \<open>call_phaseFunc\<close>.
\<close>

datatype t_adsr_phase = Idle | Startup | Attack | Decay | Sustain | Release

datatype adsr_phase_ptr =
  startupPhase_ptr | attackPhase_ptr | decayPhase_ptr | sustainPhase_ptr
  | releasePhase_ptr | idlePhase_ptr

record t_adsr_tilde =
  phase :: t_adsr_phase
  phaseFunc :: adsr_phase_ptr
  samplerate :: real
  sampleratems :: real
  attackTime :: real
  decayTime :: real
  sustainLevel :: real
  releaseTime :: real
  attackShape :: real
  releaseShape :: real
  currentEnv :: real
  phaseStartEnv :: real
  startAtCurrentEnv :: bool
  attackPhaseSamples :: int
  decayPhaseSamples :: int
  releasePhaseSamples :: int
  startupPhaseSamples :: int
  currentSample :: int
  gain :: real

text \<open>\<^verbatim>\<open>const int startupTime = 3;\<close>\<close>

definition startupTime :: int where
  "startupTime = 3"

subsection \<open>Library functions the code calls\<close>

text \<open>\<^verbatim>\<open>std::clamp(v, lo, hi)\<close> is \<^verbatim>\<open>(v < lo) ? lo : (hi < v) ? hi : v\<close>.\<close>

definition std_clamp :: "real \<Rightarrow> real \<Rightarrow> real \<Rightarrow> real" where
  "std_clamp v lo hi = (if v < lo then lo else if hi < v then hi else v)"

text \<open>\<^verbatim>\<open>std::max(a, b)\<close> is \<^verbatim>\<open>(a < b) ? b : a\<close>.\<close>

definition std_max :: "int \<Rightarrow> int \<Rightarrow> int" where
  "std_max a b = (if a < b then b else a)"

text \<open>
  \<^verbatim>\<open>static_cast<int>(d)\<close>: the fractional part is discarded. When the truncated
  value does not fit the 32-bit \<^verbatim>\<open>int\<close>, C++ leaves the conversion undefined; the
  value given here is the one the conversion instruction of x86-64 produces, the
  smallest \<^verbatim>\<open>int\<close>. The theorems about the sample counts bound the sample rate so
  that the conversion is defined.
\<close>

definition static_cast_int :: "real \<Rightarrow> int" where
  "static_cast_int d =
     (let t = (if 0 \<le> d then \<lfloor>d\<rfloor> else \<lceil>d\<rceil>)
      in if - 2147483648 \<le> t \<and> t \<le> 2147483647 then t else - 2147483648)"

text \<open>
  The rounding of IEEE 754 binary64 arithmetic, to the nearest double with ties to the
  even significand: \<open>pow2 k\<close> is \<open>2\<close> to the power \<open>k\<close>, \<open>double_ulp a\<close> the spacing of
  the doubles at the magnitude \<open>a\<close> (52 bits below the binary exponent of \<open>a\<close>, and
  \<open>2\<close> to the \<open>- 1074\<close> in the subnormal range), and \<open>double_round x\<close> the multiple of
  that spacing nearest to \<open>x\<close>. An operation of the code on doubles is the
  \<open>double_round\<close> of the exact result. Overflow to infinity (beyond \<open>2\<close> to the 1024)
  is not modelled.
\<close>

definition pow2 :: "int \<Rightarrow> real" where
  "pow2 k = (if 0 \<le> k then 2 ^ nat k else 1 / 2 ^ nat (- k))"

definition round_to_even :: "real \<Rightarrow> int" where
  "round_to_even y =
     (let n = \<lfloor>y\<rfloor>; r = y - of_int n
      in if r < 1 / 2 then n else if 1 / 2 < r then n + 1
         else if even n then n else n + 1)"

definition double_ulp :: "real \<Rightarrow> real" where
  "double_ulp a = pow2 (max \<lfloor>log 2 a\<rfloor> (- 1022) - 52)"

definition double_round :: "real \<Rightarrow> real" where
  "double_round x =
     (if x = 0 then 0
      else sgn x * (of_int (round_to_even (\<bar>x\<bar> / double_ulp \<bar>x\<bar>)) * double_ulp \<bar>x\<bar>))"

text \<open>
  The division of two doubles. With a zero divisor IEEE arithmetic gives an infinity
  (or NaN for \<open>0 / 0\<close>), which is \<open>None\<close> here.
\<close>

definition double_div :: "real \<Rightarrow> real \<Rightarrow> real option" where
  "double_div a b = (if b = 0 then None else Some (a / b))"

text \<open>
  \<^verbatim>\<open>std::pow(b, e)\<close> on finite arguments: \<open>1\<close> for a zero exponent, the real power
  of a positive base, \<open>0\<close> for a zero base and a positive exponent, a pole error
  (infinity) for a zero base and a negative exponent, the signed power for a negative
  base and an integral exponent, and a domain error (NaN) for a negative base and any
  other exponent.
\<close>

definition std_pow :: "real \<Rightarrow> real \<Rightarrow> real option" where
  "std_pow b e =
     (if e = 0 then Some 1
      else if 0 < b then Some (b powr e)
      else if b = 0 then (if 0 < e then Some 0 else None)
      else if e = of_int \<lfloor>e\<rfloor>
        then Some ((if even \<lfloor>e\<rfloor> then 1 else - 1) * ((- b) powr e))
      else None)"

section \<open>The phase engine\<close>

text \<open>\<^verbatim>\<open>power_lerp\<close>: the shaped interpolation from \<open>start\<close> to \<open>endv\<close>.\<close>

definition power_lerp :: "real \<Rightarrow> real \<Rightarrow> real \<Rightarrow> real \<Rightarrow> real option" where
  "power_lerp start endv p shape =
     (if shape = 1 then Some (start + (endv - start) * p)
      else
        (case (if endv < start
               then map_option (\<lambda>c. 1 - c) (std_pow (1 - p) shape)
               else std_pow p shape) of
           None \<Rightarrow> None
         | Some curved \<Rightarrow> Some (start + (endv - start) * curved)))"

text \<open>
  \<^verbatim>\<open>enter_phase\<close>: sets the phase, binds the phase function and resets the sample
  counter. The \<^verbatim>\<open>default\<close> branch of the switch is unreachable for the six
  enumerators.
\<close>

definition enter_phase :: "t_adsr_tilde \<Rightarrow> t_adsr_phase \<Rightarrow> t_adsr_tilde" where
  "enter_phase x newPhase =
     x\<lparr>phase := newPhase,
       phaseFunc :=
         (case newPhase of
            Startup \<Rightarrow> startupPhase_ptr
          | Attack \<Rightarrow> attackPhase_ptr
          | Decay \<Rightarrow> decayPhase_ptr
          | Sustain \<Rightarrow> sustainPhase_ptr
          | Release \<Rightarrow> releasePhase_ptr
          | Idle \<Rightarrow> idlePhase_ptr),
       currentSample := 0\<rparr>"

definition startupPhase :: "t_adsr_tilde \<Rightarrow> t_adsr_tilde option" where
  "startupPhase x =
     (case double_div (of_int (currentSample x)) (of_int (startupPhaseSamples x)) of
        None \<Rightarrow> None
      | Some p \<Rightarrow>
          (case power_lerp (phaseStartEnv x) 0 p 1 of
             None \<Rightarrow> None
           | Some v \<Rightarrow>
               (let x1 = x\<lparr>currentEnv := v, currentSample := currentSample x + 1\<rparr>
                in if currentSample x1 \<ge> startupPhaseSamples x1
                   then Some (enter_phase (x1\<lparr>phaseStartEnv := 0\<rparr>) Attack)
                   else Some x1)))"

definition attackPhase :: "t_adsr_tilde \<Rightarrow> t_adsr_tilde option" where
  "attackPhase x =
     (case double_div (of_int (currentSample x)) (of_int (attackPhaseSamples x)) of
        None \<Rightarrow> None
      | Some p \<Rightarrow>
          (case power_lerp (phaseStartEnv x) 1 p (attackShape x) of
             None \<Rightarrow> None
           | Some v \<Rightarrow>
               (let x1 = x\<lparr>currentEnv := v, currentSample := currentSample x + 1\<rparr>
                in if currentSample x1 \<ge> attackPhaseSamples x1
                   then Some (enter_phase x1 Decay)
                   else Some x1)))"

definition decayPhase :: "t_adsr_tilde \<Rightarrow> t_adsr_tilde option" where
  "decayPhase x =
     (case double_div (of_int (currentSample x)) (of_int (decayPhaseSamples x)) of
        None \<Rightarrow> None
      | Some p \<Rightarrow>
          (let x1 = x\<lparr>currentEnv := (1 - p) * (1 - sustainLevel x) + sustainLevel x,
                       currentSample := currentSample x + 1\<rparr>
           in if currentSample x1 \<ge> decayPhaseSamples x1
              then Some (enter_phase x1 Sustain)
              else Some x1))"

definition sustainPhase :: "t_adsr_tilde \<Rightarrow> t_adsr_tilde option" where
  "sustainPhase x = Some (x\<lparr>currentEnv := sustainLevel x\<rparr>)"

definition releasePhase :: "t_adsr_tilde \<Rightarrow> t_adsr_tilde option" where
  "releasePhase x =
     (case double_div (of_int (currentSample x)) (of_int (releasePhaseSamples x - 1)) of
        None \<Rightarrow> None
      | Some p \<Rightarrow>
          (case power_lerp (phaseStartEnv x) 0 p (releaseShape x) of
             None \<Rightarrow> None
           | Some v \<Rightarrow>
               (let x1 = x\<lparr>currentEnv := v, currentSample := currentSample x + 1\<rparr>
                in if currentSample x1 \<ge> releasePhaseSamples x1
                   then Some (enter_phase x1 Idle)
                   else Some x1)))"

definition idlePhase :: "t_adsr_tilde \<Rightarrow> t_adsr_tilde option" where
  "idlePhase x = Some (x\<lparr>currentEnv := 0\<rparr>)"

text \<open>\<^verbatim>\<open>x->phaseFunc(x)\<close>: the call through the bound pointer.\<close>

definition call_phaseFunc :: "t_adsr_tilde \<Rightarrow> t_adsr_tilde option" where
  "call_phaseFunc x =
     (case phaseFunc x of
        startupPhase_ptr \<Rightarrow> startupPhase x
      | attackPhase_ptr \<Rightarrow> attackPhase x
      | decayPhase_ptr \<Rightarrow> decayPhase x
      | sustainPhase_ptr \<Rightarrow> sustainPhase x
      | releasePhase_ptr \<Rightarrow> releasePhase x
      | idlePhase_ptr \<Rightarrow> idlePhase x)"

text \<open>
  \<^verbatim>\<open>adsr_perform\<close>: the render loop over a block of \<open>n\<close> samples. It returns the
  object after the block and the samples written to the outlet,
  \<^verbatim>\<open>currentEnv * gain\<close> each, or \<open>None\<close> when a phase function left the finite
  numbers.
\<close>

fun adsr_perform :: "t_adsr_tilde \<Rightarrow> nat \<Rightarrow> (t_adsr_tilde \<times> real list) option" where
  "adsr_perform x 0 = Some (x, [])"
| "adsr_perform x (Suc n) =
     (case call_phaseFunc x of
        None \<Rightarrow> None
      | Some x1 \<Rightarrow>
          (case adsr_perform x1 n of
             None \<Rightarrow> None
           | Some (x2, out) \<Rightarrow> Some (x2, currentEnv x1 * gain x1 # out)))"

section \<open>Triggers\<close>

definition adsr_trigger_start :: "t_adsr_tilde \<Rightarrow> t_adsr_tilde" where
  "adsr_trigger_start x =
     (if \<not> startAtCurrentEnv x
      then enter_phase (x\<lparr>phaseStartEnv := currentEnv x\<rparr>) Startup
      else enter_phase (x\<lparr>phaseStartEnv := currentEnv x\<rparr>) Attack)"

definition adsr_trigger_stop :: "t_adsr_tilde \<Rightarrow> t_adsr_tilde" where
  "adsr_trigger_stop x =
     (if phase x \<noteq> Idle \<and> phase x \<noteq> Release
      then enter_phase (x\<lparr>phaseStartEnv := currentEnv x\<rparr>) Release
      else x)"

section \<open>Parameter setters\<close>

definition adsr_attack :: "t_adsr_tilde \<Rightarrow> real \<Rightarrow> t_adsr_tilde" where
  "adsr_attack x f =
     (let x1 = x\<lparr>attackTime := std_clamp f 0 10000\<rparr>
      in x1\<lparr>attackPhaseSamples :=
              std_max 1 (static_cast_int (double_round (attackTime x1 * sampleratems x1)))\<rparr>)"

definition adsr_decay :: "t_adsr_tilde \<Rightarrow> real \<Rightarrow> t_adsr_tilde" where
  "adsr_decay x f =
     (let x1 = x\<lparr>decayTime := std_clamp f 0 10000\<rparr>
      in x1\<lparr>decayPhaseSamples :=
              std_max 1 (static_cast_int (double_round (decayTime x1 * sampleratems x1)))\<rparr>)"

definition adsr_release :: "t_adsr_tilde \<Rightarrow> real \<Rightarrow> t_adsr_tilde" where
  "adsr_release x f =
     (let t = (if \<not> startAtCurrentEnv x then of_int startupTime else 0);
          x1 = x\<lparr>releaseTime := std_clamp (f - t) 0 10000\<rparr>
      in x1\<lparr>releasePhaseSamples :=
              std_max 1
                (static_cast_int (double_round (releaseTime x1 * sampleratems x1)))\<rparr>)"

definition adsr_sustain :: "t_adsr_tilde \<Rightarrow> real \<Rightarrow> t_adsr_tilde" where
  "adsr_sustain x f = x\<lparr>sustainLevel := std_clamp f 0 1\<rparr>"

text \<open>
  \<^verbatim>\<open>map_shape_to_exponent\<close>: the literal \<^verbatim>\<open>0.9\<close> is the double nearest to
  \<open>9 / 10\<close>; the literals \<^verbatim>\<open>1.0\<close> and \<^verbatim>\<open>9.0\<close> are exact.
\<close>

definition map_shape_to_exponent :: "real \<Rightarrow> real" where
  "map_shape_to_exponent f =
     (let shape = std_clamp f (- 1) 1
      in if shape < 0
         then double_round (1 + double_round (shape * double_round (9 / 10)))
         else double_round (1 + double_round (shape * 9)))"

definition adsr_attackshape :: "t_adsr_tilde \<Rightarrow> real \<Rightarrow> t_adsr_tilde" where
  "adsr_attackshape x f = x\<lparr>attackShape := map_shape_to_exponent f\<rparr>"

definition adsr_releaseshape :: "t_adsr_tilde \<Rightarrow> real \<Rightarrow> t_adsr_tilde" where
  "adsr_releaseshape x f = x\<lparr>releaseShape := map_shape_to_exponent f\<rparr>"

definition adsr_g :: "t_adsr_tilde \<Rightarrow> real \<Rightarrow> t_adsr_tilde" where
  "adsr_g x f = x\<lparr>gain := std_clamp f 0 1\<rparr>"

text \<open>
  \<^verbatim>\<open>adsr_dsp\<close>: the block setup. The argument \<open>s_sr\<close> is the host's sample rate
  \<^verbatim>\<open>sp[0]->s_sr\<close>; registering the perform routine with the host is not part of
  the object's state.
\<close>

definition adsr_dsp :: "t_adsr_tilde \<Rightarrow> real \<Rightarrow> t_adsr_tilde" where
  "adsr_dsp x s_sr =
     (let x1 = x\<lparr>samplerate := s_sr\<rparr>;
          x2 = x1\<lparr>sampleratems := double_round (samplerate x1 / 1000)\<rparr>
      in x2\<lparr>startupPhaseSamples :=
              std_max 1
                (static_cast_int (double_round (of_int startupTime * sampleratems x2)))\<rparr>)"

text \<open>
  \<^verbatim>\<open>adsr_new\<close>: the constructor. The first argument is the object as the host's
  allocator \<^verbatim>\<open>pd_new\<close> returns it; the constructor assigns the fields below and
  leaves the others (the four sample counts, \<^verbatim>\<open>phaseStartEnv\<close> and
  \<^verbatim>\<open>currentSample\<close>) as allocated.
\<close>

definition adsr_new :: "t_adsr_tilde \<Rightarrow> real \<Rightarrow> t_adsr_tilde" where
  "adsr_new x f =
     x\<lparr>startAtCurrentEnv := (f = 1),
       samplerate := 44100,
       sampleratems := 441 / 10,
       attackTime := 1 / 100,
       decayTime := 1 / 10,
       sustainLevel := 7 / 10,
       releaseTime := 2 / 10,
       attackShape := 2,
       releaseShape := 1,
       currentEnv := 0,
       gain := 1,
       phaseFunc := idlePhase_ptr,
       phase := Idle\<rparr>"

section \<open>Concrete objects\<close>

text \<open>
  An object as \<^verbatim>\<open>pd_new\<close> hands it to the constructor. Pure Data's allocator
  zero-fills the memory: the numeric fields are 0, the flag is false and the phase is the
  first enumerator. The constructor binds \<^verbatim>\<open>phaseFunc\<close> before anything calls
  through it; the tag given here stands for the null pointer that it overwrites.
\<close>

definition fresh_object :: t_adsr_tilde where
  "fresh_object =
     \<lparr>phase = Idle, phaseFunc = idlePhase_ptr, samplerate = 0, sampleratems = 0,
      attackTime = 0, decayTime = 0, sustainLevel = 0, releaseTime = 0,
      attackShape = 0, releaseShape = 0, currentEnv = 0, phaseStartEnv = 0,
      startAtCurrentEnv = False, attackPhaseSamples = 0, decayPhaseSamples = 0,
      releasePhaseSamples = 0, startupPhaseSamples = 0, currentSample = 0, gain = 0\<rparr>"

text \<open>
  The object after its construction with the creation argument \<open>mode\<close>, a block setup
  at the sample rate \<open>s_sr\<close> and one message to each of the seven setters: attack \<open>a\<close>,
  decay \<open>d\<close>, release \<open>r\<close>, sustain \<open>s\<close>, attackshape \<open>ash\<close>, releaseshape \<open>rsh\<close> and
  gain \<open>g\<close>.
\<close>

definition configured ::
  "real \<Rightarrow> real \<Rightarrow> real \<Rightarrow> real \<Rightarrow> real \<Rightarrow> real \<Rightarrow> real \<Rightarrow> real \<Rightarrow> real \<Rightarrow> t_adsr_tilde" where
  "configured mode s_sr a d r s ash rsh g =
     adsr_g (adsr_releaseshape (adsr_attackshape (adsr_sustain
       (adsr_release (adsr_decay (adsr_attack
          (adsr_dsp (adsr_new fresh_object mode) s_sr) a) d) r) s) ash) rsh) g"

text \<open>
  Three configured objects at 44100 Hz with linear shapes and gain 1. The first starts
  from the current envelope value and has an attack, a decay and a release of 0.05 ms
  each, which is 2 samples; the second starts from silence (its release message of
  3.05 ms leaves 0.05 ms after the startup adjustment); the third has an attack of
  10 ms, a decay of 100 ms and a release of 0 ms.
\<close>

definition short_object :: t_adsr_tilde where
  "short_object = configured 1 44100 (1 / 20) (1 / 20) (1 / 20) (1 / 2) 0 0 1"


definition zero_release_object :: t_adsr_tilde where
  "zero_release_object = configured 1 44100 10 100 0 (7 / 10) 0 0 1"

lemmas setter_defs =
  adsr_new_def adsr_dsp_def adsr_attack_def adsr_decay_def adsr_release_def
  adsr_sustain_def adsr_attackshape_def adsr_releaseshape_def adsr_g_def
  map_shape_to_exponent_def std_clamp_def std_max_def static_cast_int_def
  startupTime_def Let_def

section \<open>Facts about the library functions\<close>

lemma std_clamp_range: "lo \<le> hi \<Longrightarrow> lo \<le> std_clamp v lo hi \<and> std_clamp v lo hi \<le> hi"
  by (simp add: std_clamp_def)

lemma std_max_is_max: "std_max a b = max a b"
  by (simp add: std_max_def max_def)

lemma std_max_cast:
  assumes "0 \<le> d" and "d < 2147483648"
  shows "std_max 1 (static_cast_int d) = max 1 \<lfloor>d\<rfloor>"
proof -
  have "0 \<le> \<lfloor>d\<rfloor>" using assms(1) by simp
  moreover have "\<lfloor>d\<rfloor> < 2147483648" using assms(2) by (simp add: floor_less_iff)
  ultimately have "static_cast_int d = \<lfloor>d\<rfloor>"
    using assms(1) by (simp add: static_cast_int_def Let_def)
  then show ?thesis by (simp only: std_max_is_max)
qed

lemma std_pow_nonneg: "0 \<le> b \<Longrightarrow> 0 < e \<Longrightarrow> std_pow b e = Some (b powr e)"
  by (auto simp add: std_pow_def)

lemma power_lerp_rising:
  assumes "start \<le> endv" and "0 \<le> p" and "0 < shape"
  shows "power_lerp start endv p shape = Some (start + (endv - start) * (p powr shape))"
  using assms by (auto simp add: power_lerp_def std_pow_nonneg)

lemma power_lerp_falling:
  assumes "endv < start" and "p \<le> 1" and "0 < shape"
  shows "power_lerp start endv p shape =
     Some (start + (endv - start) * (1 - (1 - p) powr shape))"
  using assms by (auto simp add: power_lerp_def std_pow_nonneg)

lemma power_lerp_at_0: "0 < shape \<Longrightarrow> power_lerp start endv 0 shape = Some start"
  by (cases "endv < start") (simp_all add: power_lerp_rising power_lerp_falling)



section \<open>Facts about the rounding of doubles\<close>

lemma pow2_powr: "pow2 k = 2 powr of_int k"
  by (simp add: pow2_def powr_int)

lemma pow2_pos [simp]: "0 < pow2 k"
  by (simp add: pow2_powr)

lemma pow2_mono: "j \<le> k \<Longrightarrow> pow2 j \<le> pow2 k"
  by (simp add: pow2_powr)

lemma pow2_add: "pow2 (j + k) = pow2 j * pow2 k"
  by (simp add: pow2_powr powr_add)

lemma round_to_even_of_int [simp]: "round_to_even (of_int k) = k"
  by (simp add: round_to_even_def)

lemma round_to_even_bounds:
  "of_int (round_to_even y) \<le> y + 1 / 2" "y - 1 / 2 \<le> of_int (round_to_even y)"
  by (auto simp add: round_to_even_def Let_def) linarith+

lemma round_to_even_ge_floor: "\<lfloor>y\<rfloor> \<le> round_to_even y"
  by (simp add: round_to_even_def Let_def)

lemma round_to_even_le_floor: "round_to_even y \<le> \<lfloor>y\<rfloor> + 1"
  by (simp add: round_to_even_def Let_def)

lemma round_to_even_mono: "x \<le> y \<Longrightarrow> round_to_even x \<le> round_to_even y"
proof -
  assume xy: "x \<le> y"
  then have fl: "\<lfloor>x\<rfloor> \<le> \<lfloor>y\<rfloor>" by (rule floor_mono)
  show ?thesis
  proof (cases "\<lfloor>x\<rfloor> = \<lfloor>y\<rfloor>")
    case True
    with xy show ?thesis by (auto simp add: round_to_even_def Let_def)
  next
    case False
    with fl have "\<lfloor>x\<rfloor> + 1 \<le> \<lfloor>y\<rfloor>" by simp
    with round_to_even_le_floor [of x] round_to_even_ge_floor [of y] show ?thesis by linarith
  qed
qed

lemma log2_bounds:
  assumes "0 < a"
  shows "pow2 \<lfloor>log 2 a\<rfloor> \<le> a" and "a < pow2 (\<lfloor>log 2 a\<rfloor> + 1)"
  using floor_log_eq_powr_iff [of a 2 "\<lfloor>log 2 a\<rfloor>"] assms by (simp_all add: pow2_powr)

lemma floor_log2_eq:
  assumes "0 < a" and "pow2 k \<le> a" and "a < pow2 (k + 1)"
  shows "\<lfloor>log 2 a\<rfloor> = k"
  using floor_log_eq_powr_iff [of a 2 k] assms by (simp add: pow2_powr)

lemma double_round_eval:
  assumes "0 < x" and "pow2 k \<le> x" and "x < pow2 (k + 1)"
  shows "double_round x =
    of_int (round_to_even (x / pow2 (max k (- 1022) - 52))) * pow2 (max k (- 1022) - 52)"
  using assms by (simp add: double_round_def double_ulp_def floor_log2_eq [OF assms])

lemma double_round_minus: "double_round (- x) = - double_round x"
  by (simp add: double_round_def sgn_if)

lemma double_round_0 [simp]: "double_round 0 = 0"
  by (simp add: double_round_def)

lemma double_round_pos_unfold:
  "0 < a \<Longrightarrow> double_round a = of_int (round_to_even (a / double_ulp a)) * double_ulp a"
  by (simp add: double_round_def)

lemma double_ulp_pos [simp]: "0 < double_ulp a"
  by (simp add: double_ulp_def)

lemma double_ulp_neq0 [simp]: "double_ulp a \<noteq> 0"
  by (metis double_ulp_pos less_irrefl)

lemma double_round_nonneg: "0 \<le> a \<Longrightarrow> 0 \<le> double_round a"
proof (cases "a = 0")
  case False
  assume "0 \<le> a"
  with False have a: "0 < a" by simp
  then have "0 \<le> a / double_ulp a"
    by (intro divide_nonneg_nonneg less_imp_le [OF double_ulp_pos]) simp
  then have "0 \<le> \<lfloor>a / double_ulp a\<rfloor>" by simp
  with round_to_even_ge_floor [of "a / double_ulp a"]
  have "0 \<le> round_to_even (a / double_ulp a)" by linarith
  then have "0 \<le> of_int (round_to_even (a / double_ulp a)) * double_ulp a"
    by (intro mult_nonneg_nonneg less_imp_le [OF double_ulp_pos]) simp
  then show ?thesis by (simp only: double_round_pos_unfold [OF a])
qed simp

lemma pow2_split: "pow2 k = pow2 j * pow2 (k - j)"
  using pow2_add [of j "k - j"] by simp

lemma double_round_pos_mono:
  assumes a: "0 < a" and ab: "a \<le> b"
  shows "double_round a \<le> double_round b"
proof -
  from a ab have b: "0 < b" by linarith
  define ea where "ea = max \<lfloor>log 2 a\<rfloor> (- 1022)"
  define eb where "eb = max \<lfloor>log 2 b\<rfloor> (- 1022)"
  have ua: "double_ulp a = pow2 (ea - 52)" and ub: "double_ulp b = pow2 (eb - 52)"
    by (simp_all add: double_ulp_def ea_def eb_def)
  have "log 2 a \<le> log 2 b" using a ab by simp
  then have "\<lfloor>log 2 a\<rfloor> \<le> \<lfloor>log 2 b\<rfloor>" by (rule floor_mono)
  then have le: "ea \<le> eb" by (simp add: ea_def eb_def)
  show ?thesis
  proof (cases "ea = eb")
    case True
    then have u: "double_ulp b = double_ulp a" by (simp add: ua ub)
    have "a / double_ulp a \<le> b / double_ulp a"
      using ab by (intro divide_right_mono less_imp_le [OF double_ulp_pos])
    then have "round_to_even (a / double_ulp a) \<le> round_to_even (b / double_ulp a)"
      by (rule round_to_even_mono)
    then have "of_int (round_to_even (a / double_ulp a)) * double_ulp a \<le>
        of_int (round_to_even (b / double_ulp a)) * double_ulp a"
      by (simp add: mult_right_mono)
    then show ?thesis
      by (simp add: double_round_pos_unfold [OF a] double_round_pos_unfold [OF b] u)
  next
    case False
    with le have lt: "ea + 1 \<le> eb" by simp
    have "a < pow2 (\<lfloor>log 2 a\<rfloor> + 1)" by (rule log2_bounds(2) [OF a])
    also have "\<dots> \<le> pow2 (ea + 1)" by (rule pow2_mono) (simp add: ea_def)
    finally have "a < pow2 (ea + 1)" .
    also have "pow2 (ea + 1) = pow2 53 * pow2 (ea - 52)"
      using pow2_split [of "ea + 1" 53] by simp
    finally have "a / pow2 (ea - 52) < pow2 53" by (simp add: pos_divide_less_eq)
    then have "a / double_ulp a \<le> of_int (2 ^ 53)" by (simp add: ua pow2_def)
    then have "round_to_even (a / double_ulp a) \<le> round_to_even (of_int (2 ^ 53))"
      by (rule round_to_even_mono)
    then have "round_to_even (a / double_ulp a) \<le> 2 ^ 53" by (simp only: round_to_even_of_int)
    then have "(of_int (round_to_even (a / double_ulp a)) :: real) \<le> of_int (2 ^ 53)"
      by (simp only: of_int_le_iff)
    then have "of_int (round_to_even (a / double_ulp a)) * pow2 (ea - 52) \<le>
        pow2 53 * pow2 (ea - 52)"
      by (intro mult_right_mono) (simp_all add: pow2_def)
    then have up: "double_round a \<le> pow2 (ea + 1)"
      using pow2_split [of "ea + 1" 53] by (simp add: double_round_pos_unfold [OF a] ua)
    from lt have "- 1022 < eb" by (simp add: ea_def)
    then have eb': "eb = \<lfloor>log 2 b\<rfloor>" by (simp add: eb_def max_def split: if_splits)
    have "pow2 52 * pow2 (eb - 52) = pow2 eb" by (rule pow2_split [symmetric])
    also have "\<dots> \<le> b" unfolding eb' by (rule log2_bounds(1) [OF b])
    finally have "pow2 52 \<le> b / pow2 (eb - 52)" by (simp add: pos_le_divide_eq)
    then have "of_int (2 ^ 52) \<le> b / double_ulp b" by (simp add: ub pow2_def)
    then have "round_to_even (of_int (2 ^ 52)) \<le> round_to_even (b / double_ulp b)"
      by (rule round_to_even_mono)
    then have "2 ^ 52 \<le> round_to_even (b / double_ulp b)" by (simp only: round_to_even_of_int)
    then have "(of_int (2 ^ 52) :: real) \<le> of_int (round_to_even (b / double_ulp b))"
      by (simp only: of_int_le_iff)
    then have "pow2 52 * pow2 (eb - 52) \<le>
        of_int (round_to_even (b / double_ulp b)) * pow2 (eb - 52)"
      by (intro mult_right_mono) (simp_all add: pow2_def)
    then have low: "pow2 eb \<le> double_round b"
      by (simp add: double_round_pos_unfold [OF b] ub pow2_split [of eb 52, symmetric])
    from up pow2_mono [OF lt] low show ?thesis by linarith
  qed
qed

lemma double_round_mono: "x \<le> y \<Longrightarrow> double_round x \<le> double_round y"
proof -
  assume xy: "x \<le> y"
  consider "0 < x" | "x \<le> 0" "0 \<le> y" | "y < 0" by linarith
  then show ?thesis
  proof cases
    case 1
    then show ?thesis using xy by (rule double_round_pos_mono)
  next
    case 2
    from 2(1) have "0 \<le> - x" by simp
    then have "0 \<le> double_round (- x)" by (rule double_round_nonneg)
    then have "double_round x \<le> 0" by (simp add: double_round_minus)
    with double_round_nonneg [OF 2(2)] show ?thesis by linarith
  next
    case 3
    then have "0 < - y" "- y \<le> - x" using xy by simp_all
    then have "double_round (- y) \<le> double_round (- x)" by (rule double_round_pos_mono)
    then show ?thesis by (simp add: double_round_minus)
  qed
qed

lemma double_round_error:
  assumes "0 \<le> x" and "x < pow2 k" and "- 1021 \<le> k"
  shows "\<bar>double_round x - x\<bar> \<le> pow2 (k - 54)"
proof (cases "x = 0")
  case True
  then show ?thesis using less_imp_le [OF pow2_pos [of "k - 54"]] by simp
next
  case False
  with assms(1) have x: "0 < x" by simp
  have "pow2 \<lfloor>log 2 x\<rfloor> \<le> x" by (rule log2_bounds(1) [OF x])
  with assms(2) have "pow2 \<lfloor>log 2 x\<rfloor> < pow2 k" by linarith
  then have "\<lfloor>log 2 x\<rfloor> < k" by (simp add: pow2_powr)
  with assms(3) have "max \<lfloor>log 2 x\<rfloor> (- 1022) - 52 \<le> k - 53" by simp
  then have u: "double_ulp x \<le> pow2 (k - 53)" unfolding double_ulp_def by (rule pow2_mono)
  let ?u = "double_ulp x"
  let ?n = "round_to_even (x / ?u)"
  have "\<bar>of_int ?n - x / ?u\<bar> \<le> 1 / 2"
    using round_to_even_bounds [of "x / ?u"] by linarith
  then have "\<bar>of_int ?n - x / ?u\<bar> * ?u \<le> 1 / 2 * ?u"
    by (rule mult_right_mono) (rule less_imp_le [OF double_ulp_pos])
  moreover have "\<bar>of_int ?n - x / ?u\<bar> * ?u = \<bar>of_int ?n * ?u - x\<bar>"
  proof -
    have "\<bar>of_int ?n - x / ?u\<bar> * ?u = \<bar>(of_int ?n - x / ?u) * ?u\<bar>"
      using less_imp_le [OF double_ulp_pos [of x]] by (simp add: abs_mult)
    also have "(of_int ?n - x / ?u) * ?u = of_int ?n * ?u - x"
      by (simp add: left_diff_distrib)
    finally show ?thesis .
  qed
  ultimately have "\<bar>double_round x - x\<bar> \<le> ?u / 2"
    by (simp add: double_round_pos_unfold [OF x])
  also have "\<dots> \<le> pow2 (k - 53) / 2" using u by simp
  also have "\<dots> = pow2 (k - 54)"
  proof -
    have "pow2 (k - 53) = pow2 1 * pow2 (k - 54)" using pow2_split [of "k - 53" 1] by simp
    then show ?thesis by (simp add: pow2_def)
  qed
  finally show ?thesis .
qed

lemmas round_eval = pow2_def round_to_even_def Let_def

lemma double_round_1: "double_round 1 = 1"
  by (subst double_round_eval [of _ 0]) (simp_all add: round_eval)

lemma double_round_9: "double_round 9 = 9"
  by (subst double_round_eval [of _ 3]) (simp_all add: round_eval)

lemma double_round_10: "double_round 10 = 10"
  by (subst double_round_eval [of _ 3]) (simp_all add: round_eval)

lemma double_round_200000: "double_round 200000 = 200000"
  by (subst double_round_eval [of _ 17]) (simp_all add: round_eval)

lemma double_round_2000000000: "double_round 2000000000 = 2000000000"
  by (subst double_round_eval [of _ 30]) (simp_all add: round_eval)

lemma double_round_literal_09: "double_round (9 / 10) = 8106479329266893 / 9007199254740992"
  by (subst double_round_eval [of _ "- 1"]) (simp_all add: round_eval)

lemma double_round_09_exact: "double_round (8106479329266893 / 9007199254740992) =
     8106479329266893 / 9007199254740992"
  by (subst double_round_eval [of _ "- 1"]) (simp_all add: round_eval)

lemma double_round_1_minus_09: "double_round (900719925474099 / 9007199254740992) =
     900719925474099 / 9007199254740992"
  by (subst double_round_eval [of _ "- 4"]) (simp_all add: round_eval)

lemma double_round_441_10: "double_round (441 / 10) = 6206523236469965 / 140737488355328"
  by (subst double_round_eval [of _ 5]) (simp_all add: round_eval)

lemma double_round_startup_44100:
  "double_round (18619569709409895 / 140737488355328) =
     2327446213676237 / 17592186044416"
  by (subst double_round_eval [of _ 7]) (simp_all add: round_eval)

lemma double_round_short_44100:
  "double_round (1241304647293993 / 562949953421312) =
     1241304647293993 / 562949953421312"
  by (subst double_round_eval [of _ 1]) (simp_all add: round_eval)

lemma double_round_attack_10_44100:
  "double_round (31032616182349825 / 70368744177664) =
     441"
  by (subst double_round_eval [of _ 8]) (simp_all add: round_eval)

lemma double_round_decay_100_44100:
  "double_round (155163080911749125 / 35184372088832) =
     4410"
  by (subst double_round_eval [of _ 12]) (simp_all add: round_eval)

lemma double_round_5_128_44100:
  "double_round (31032616182349825 / 18014398509481984) =
     441 / 256"
  by (subst double_round_eval [of _ 0]) (simp_all add: round_eval)

lemma double_round_378_10: "double_round (189 / 5) = 2659938529915699 / 70368744177664"
  by (subst double_round_eval [of _ 5]) (simp_all add: round_eval)

lemma double_round_attack_25_37800:
  "double_round (66498463247892475 / 70368744177664) =
     8312307905986559 / 8796093022208"
  by (subst double_round_eval [of _ 9]) (simp_all add: round_eval)

lemmas round_values =
  double_round_1 double_round_9 double_round_10 double_round_literal_09
  double_round_09_exact double_round_1_minus_09 double_round_441_10 double_round_startup_44100
  double_round_short_44100 double_round_attack_10_44100 double_round_decay_100_44100
  double_round_5_128_44100 double_round_378_10
  double_round_attack_25_37800

section \<open>Facts about the concrete objects\<close>

lemma short_object_eq:
  "short_object =
     \<lparr>phase = Idle, phaseFunc = idlePhase_ptr, samplerate = 44100,
      sampleratems = 6206523236469965 / 140737488355328,
      attackTime = 1 / 20, decayTime = 1 / 20, sustainLevel = 1 / 2, releaseTime = 1 / 20,
      attackShape = 1, releaseShape = 1, currentEnv = 0, phaseStartEnv = 0,
      startAtCurrentEnv = True, attackPhaseSamples = 2, decayPhaseSamples = 2,
      releasePhaseSamples = 2, startupPhaseSamples = 132, currentSample = 0, gain = 1\<rparr>"
  by (simp add: short_object_def configured_def fresh_object_def setter_defs round_values)


lemma zero_release_object_eq:
  "zero_release_object =
     \<lparr>phase = Idle, phaseFunc = idlePhase_ptr, samplerate = 44100,
      sampleratems = 6206523236469965 / 140737488355328,
      attackTime = 10, decayTime = 100, sustainLevel = 7 / 10, releaseTime = 0,
      attackShape = 1, releaseShape = 1, currentEnv = 0, phaseStartEnv = 0,
      startAtCurrentEnv = True, attackPhaseSamples = 441, decayPhaseSamples = 4410,
      releasePhaseSamples = 1, startupPhaseSamples = 132, currentSample = 0, gain = 1\<rparr>"
  by (simp add: zero_release_object_def configured_def fresh_object_def setter_defs
        round_values)

lemmas phase_defs =
  call_phaseFunc_def startupPhase_def attackPhase_def decayPhase_def sustainPhase_def
  releasePhase_def idlePhase_def double_div_def power_lerp_def enter_phase_def

section \<open>Facts about the phase functions\<close>

text \<open>
  A block of \<open>k + 1\<close> samples follows a trajectory \<open>st\<close>: when every call through the
  phase function leads from one state of the trajectory to the next, the block ends in
  the state \<open>st k\<close> and its samples are the values of the states passed.
\<close>

lemma adsr_perform_trajectory:
  assumes "call_phaseFunc x = Some (st 0)"
    and "\<And>i. i < k \<Longrightarrow> call_phaseFunc (st i) = Some (st (Suc i))"
  shows "\<exists>out. adsr_perform x (Suc k) = Some (st k, out) \<and> length out = Suc k \<and>
           (\<forall>i<Suc k. out ! i = currentEnv (st i) * gain (st i))"
  using assms
proof (induction k arbitrary: x st)
  case 0
  then show ?case by simp
next
  case (Suc k)
  have "\<exists>out. adsr_perform (st 0) (Suc k) = Some (st (Suc k), out) \<and> length out = Suc k \<and>
           (\<forall>i<Suc k. out ! i = currentEnv (st (Suc i)) * gain (st (Suc i)))"
    by (rule Suc.IH [where st = "\<lambda>i. st (Suc i)"]) (simp_all add: Suc.prems(2))
  then obtain out where run: "adsr_perform (st 0) (Suc k) = Some (st (Suc k), out)"
    and len: "length out = Suc k"
    and vals: "\<forall>i<Suc k. out ! i = currentEnv (st (Suc i)) * gain (st (Suc i))"
    by blast
  let ?out = "currentEnv (st 0) * gain (st 0) # out"
  have "adsr_perform x (Suc (Suc k)) =
     (case adsr_perform (st 0) (Suc k) of None \<Rightarrow> None
      | Some (x2, out) \<Rightarrow> Some (x2, currentEnv (st 0) * gain (st 0) # out))"
    using Suc.prems(1) by (simp only: adsr_perform.simps option.case)
  then have fin: "adsr_perform x (Suc (Suc k)) = Some (st (Suc k), ?out)"
    by (simp only: run option.case prod.case)
  have vals': "?out ! i = currentEnv (st i) * gain (st i)" if "i < Suc (Suc k)" for i
  proof (cases i)
    case 0
    then show ?thesis by simp
  next
    case (Suc j)
    with that have "j < Suc k" by simp
    with vals Suc show ?thesis by simp
  qed
  from fin len vals' show ?case
    by (intro exI [of _ ?out] conjI allI impI) simp_all
qed

lemma attackPhase_rising:
  assumes "phaseFunc x = attackPhase_ptr" and "1 \<le> attackPhaseSamples x"
    and "0 \<le> currentSample x" and "0 < attackShape x" and "phaseStartEnv x \<le> 1"
  shows "call_phaseFunc x =
     Some (let x1 = x\<lparr>currentEnv := phaseStartEnv x + (1 - phaseStartEnv x) *
               ((of_int (currentSample x) / of_int (attackPhaseSamples x)) powr attackShape x),
             currentSample := currentSample x + 1\<rparr>
           in if attackPhaseSamples x \<le> currentSample x + 1 then enter_phase x1 Decay else x1)"
  using assms
  by (simp add: call_phaseFunc_def attackPhase_def double_div_def power_lerp_rising Let_def)

lemma decayPhase_first:
  assumes "phaseFunc x = decayPhase_ptr" and "1 \<le> decayPhaseSamples x"
    and "currentSample x = 0"
  shows "\<exists>x2. call_phaseFunc x = Some x2 \<and> currentEnv x2 = 1"
  using assms
  by (simp add: call_phaseFunc_def decayPhase_def double_div_def Let_def enter_phase_def)

lemma releasePhase_linear:
  assumes "phaseFunc x = releasePhase_ptr" and "releaseShape x = 1"
    and "releasePhaseSamples x \<noteq> 1"
  shows "call_phaseFunc x =
     Some (let x1 = x\<lparr>currentEnv := phaseStartEnv x + (0 - phaseStartEnv x) *
               (of_int (currentSample x) / of_int (releasePhaseSamples x - 1)),
             currentSample := currentSample x + 1\<rparr>
           in if releasePhaseSamples x \<le> currentSample x + 1 then enter_phase x1 Idle else x1)"
  using assms
  by (simp add: call_phaseFunc_def releasePhase_def double_div_def power_lerp_def Let_def)

text \<open>
  The release phase divides by its sample count less one: with the count 1 the divisor
  is zero at every sample index.
\<close>

lemma releasePhase_count_one:
  "phaseFunc x = releasePhase_ptr \<Longrightarrow> releasePhaseSamples x = 1 \<Longrightarrow> call_phaseFunc x = None"
  by (simp add: call_phaseFunc_def releasePhase_def double_div_def)





lemma double_round_9_4: "double_round (9 / 4) = 9 / 4"
  by (subst double_round_eval [of _ 1]) (simp_all add: round_eval)

lemma double_round_13_4: "double_round (13 / 4) = 13 / 4"
  by (subst double_round_eval [of _ 1]) (simp_all add: round_eval)

lemma double_round_half_09:
  "double_round (8106479329266893 / 18014398509481984) =
     8106479329266893 / 18014398509481984"
  by (subst double_round_eval [of _ "- 2"]) (simp_all add: round_eval)

lemma double_round_1_minus_half_09:
  "double_round (9907919180215091 / 18014398509481984) =
     2476979795053773 / 4503599627370496"
  by (subst double_round_eval [of _ "- 1"]) (simp_all add: round_eval)

section \<open>Facts about the parameter setters\<close>

text \<open>
  The sample count derived from a time \<open>t\<close> in \<open>[0, 10000]\<close> ms at a sample rate \<open>r\<close> of
  at most 200 MHz: the double product fits the \<^verbatim>\<open>int\<close>, and the two roundings
  move it by less than 1 from the exact product.
\<close>

lemma derived_count:
  assumes "0 \<le> r" and "r \<le> 200000000" and "0 \<le> t" and "t \<le> 10000"
  shows "std_max 1 (static_cast_int (double_round (t * double_round (r / 1000)))) =
           max 1 \<lfloor>double_round (t * double_round (r / 1000))\<rfloor>"
    and "\<bar>max 1 \<lfloor>double_round (t * double_round (r / 1000))\<rfloor> - max 1 \<lfloor>t * r / 1000\<rfloor>\<bar> \<le> 1"
proof -
  let ?S = "double_round (r / 1000)"
  let ?P = "double_round (t * ?S)"
  have S0: "0 \<le> ?S" using assms(1) by (intro double_round_nonneg) simp
  have "?S \<le> double_round 200000" using assms(2) by (intro double_round_mono) simp
  then have S1: "?S \<le> 200000" by (simp only: double_round_200000)
  have "\<bar>?S - r / 1000\<bar> \<le> pow2 (18 - 54)"
    using assms(1,2) by (intro double_round_error) (simp_all add: pow2_def)
  then have e1: "\<bar>?S - r / 1000\<bar> \<le> 1 / 2 ^ 36" by (simp add: pow2_def)
  have p0: "0 \<le> t * ?S" using assms(3) S0 by simp
  have "t * ?S \<le> 10000 * 200000" using assms(3,4) S0 S1 by (intro mult_mono) simp_all
  then have p1: "t * ?S \<le> 2000000000" by simp
  have P0: "0 \<le> ?P" using p0 by (rule double_round_nonneg)
  have "?P \<le> double_round 2000000000" using p1 by (rule double_round_mono)
  then have P1: "?P \<le> 2000000000" by (simp only: double_round_2000000000)
  have "\<bar>?P - t * ?S\<bar> \<le> pow2 (31 - 54)"
    using p0 p1 by (intro double_round_error) (simp_all add: pow2_def)
  then have e2: "\<bar>?P - t * ?S\<bar> \<le> 1 / 2 ^ 23" by (simp add: pow2_def)
  show "std_max 1 (static_cast_int ?P) = max 1 \<lfloor>?P\<rfloor>"
    using P0 P1 by (intro std_max_cast) simp_all
  have "\<bar>t * (?S - r / 1000)\<bar> = t * \<bar>?S - r / 1000\<bar>"
    using assms(3) by (simp add: abs_mult)
  also have "\<dots> \<le> 10000 * (1 / 2 ^ 36)"
    using assms(3,4) e1 by (intro mult_mono) simp_all
  finally have e3: "\<bar>t * ?S - t * r / 1000\<bar> \<le> 10000 / 2 ^ 36"
    by (simp add: right_diff_distrib)
  have "\<bar>?P - t * r / 1000\<bar> \<le> 1 / 2 ^ 23 + 10000 / 2 ^ 36"
    using e2 e3 by linarith
  also have "\<dots> < (1 :: real)" by simp
  finally have close: "\<bar>?P - t * r / 1000\<bar> < 1" .
  have "?P \<le> t * r / 1000 + 1" using close by linarith
  then have "\<lfloor>?P\<rfloor> \<le> \<lfloor>t * r / 1000 + 1\<rfloor>" by (rule floor_mono)
  then have f1: "\<lfloor>?P\<rfloor> \<le> \<lfloor>t * r / 1000\<rfloor> + 1" by simp
  have "t * r / 1000 \<le> ?P + 1" using close by linarith
  then have "\<lfloor>t * r / 1000\<rfloor> \<le> \<lfloor>?P + 1\<rfloor>" by (rule floor_mono)
  then have f2: "\<lfloor>t * r / 1000\<rfloor> \<le> \<lfloor>?P\<rfloor> + 1" by simp
  from f1 f2 show "\<bar>max 1 \<lfloor>?P\<rfloor> - max 1 \<lfloor>t * r / 1000\<rfloor>\<bar> \<le> 1"
    by linarith
qed

text \<open>
  The shape map on the two sides of zero. The rounding is monotone and leaves the
  doubles \<open>0\<close>, \<open>1\<close>, \<open>9\<close>, \<open>10\<close>, the literal and its difference from \<open>1\<close> as they
  are, so the bounds of the exact map carry over, with the literal in the place of
  \<open>9 / 10\<close>.
\<close>

lemma map_shape_negative:
  assumes "f < 0"
  shows "map_shape_to_exponent f =
      double_round (1 + double_round (std_clamp f (- 1) 1 * double_round (9 / 10)))"
    and "1 - double_round (9 / 10) \<le> map_shape_to_exponent f"
    and "map_shape_to_exponent f \<le> 1"
proof -
  let ?c = "8106479329266893 / 9007199254740992 :: real"
  let ?s = "std_clamp f (- 1) 1"
  have s: "- 1 \<le> ?s" "?s < 0" using assms by (simp_all add: std_clamp_def)
  then show eq: "map_shape_to_exponent f =
      double_round (1 + double_round (?s * double_round (9 / 10)))"
    by (simp add: map_shape_to_exponent_def Let_def)
  have "- ?c \<le> ?s * ?c" using s(1) by simp
  then have "double_round (- ?c) \<le> double_round (?s * ?c)" by (rule double_round_mono)
  then have lo: "- ?c \<le> double_round (?s * ?c)"
    by (simp only: double_round_minus double_round_09_exact)
  have "?s * ?c \<le> 0" using s(2) by (simp add: mult_le_0_iff)
  then have "double_round (?s * ?c) \<le> double_round 0" by (rule double_round_mono)
  then have hi: "double_round (?s * ?c) \<le> 0" by simp
  have "double_round (1 - ?c) \<le> double_round (1 + double_round (?s * ?c))"
    using lo by (intro double_round_mono) simp
  then have lo': "1 - ?c \<le> double_round (1 + double_round (?s * ?c))"
    by (simp add: double_round_1_minus_09)
  have "double_round (1 + double_round (?s * ?c)) \<le> double_round 1"
    using hi by (intro double_round_mono) simp
  then have hi': "double_round (1 + double_round (?s * ?c)) \<le> 1"
    by (simp only: double_round_1)
  from lo' show "1 - double_round (9 / 10) \<le> map_shape_to_exponent f"
    by (simp only: eq double_round_literal_09)
  from hi' show "map_shape_to_exponent f \<le> 1"
    by (simp only: eq double_round_literal_09)
qed

lemma map_shape_nonnegative:
  assumes "0 \<le> f"
  shows "map_shape_to_exponent f = double_round (1 + double_round (std_clamp f (- 1) 1 * 9))"
    and "1 \<le> map_shape_to_exponent f"
    and "map_shape_to_exponent f \<le> 10"
proof -
  let ?s = "std_clamp f (- 1) 1"
  have s: "0 \<le> ?s" "?s \<le> 1" using assms by (simp_all add: std_clamp_def)
  then show eq: "map_shape_to_exponent f = double_round (1 + double_round (?s * 9))"
    by (simp add: map_shape_to_exponent_def Let_def)
  have "0 \<le> ?s * 9" using s(1) by simp
  then have lo: "0 \<le> double_round (?s * 9)" by (rule double_round_nonneg)
  have "?s * 9 \<le> 9" using s(2) by simp
  then have "double_round (?s * 9) \<le> double_round 9" by (rule double_round_mono)
  then have hi: "double_round (?s * 9) \<le> 9" by (simp only: double_round_9)
  have "double_round 1 \<le> double_round (1 + double_round (?s * 9))"
    using lo by (intro double_round_mono) simp
  then show "1 \<le> map_shape_to_exponent f" by (simp only: eq double_round_1)
  have "double_round (1 + double_round (?s * 9)) \<le> double_round 10"
    using hi by (intro double_round_mono) simp
  then show "map_shape_to_exponent f \<le> 10" by (simp only: eq double_round_10)
qed

lemma map_shape_range:
  "1 - double_round (9 / 10) \<le> map_shape_to_exponent f \<and> map_shape_to_exponent f \<le> 10"
proof (cases "f < 0")
  case True
  from map_shape_negative(2,3) [OF True] show ?thesis by simp
next
  case False
  then have "0 \<le> f" by simp
  from map_shape_nonnegative(2,3) [OF this] show ?thesis
    by (simp add: double_round_literal_09)
qed

section \<open>Properties of the parameter store\<close>

text \<open>
  Claim C5, as amended. The constructor stores attack time 0.01, decay time 0.1, sustain
  level 0.7, release time 0.2, attack shape exponent 2, release shape exponent 1 and gain
  1, at the sample rate 44100 Hz (44.1 samples per millisecond); it binds the Idle phase
  function, sets the phase to Idle and the envelope value to 0, and takes the start mode
  from its argument. It derives no sample count: the four counts stay as allocated.
\<close>

theorem C5_constructor_defaults:
  "attackTime (adsr_new x f) = 1 / 100 \<and> decayTime (adsr_new x f) = 1 / 10 \<and>
   sustainLevel (adsr_new x f) = 7 / 10 \<and> releaseTime (adsr_new x f) = 2 / 10 \<and>
   attackShape (adsr_new x f) = 2 \<and> releaseShape (adsr_new x f) = 1 \<and>
   gain (adsr_new x f) = 1 \<and> phase (adsr_new x f) = Idle \<and>
   phaseFunc (adsr_new x f) = idlePhase_ptr \<and> currentEnv (adsr_new x f) = 0 \<and>
   samplerate (adsr_new x f) = 44100 \<and> sampleratems (adsr_new x f) = 441 / 10 \<and>
   startAtCurrentEnv (adsr_new x f) = (f = 1) \<and>
   attackPhaseSamples (adsr_new x f) = attackPhaseSamples x \<and>
   decayPhaseSamples (adsr_new x f) = decayPhaseSamples x \<and>
   releasePhaseSamples (adsr_new x f) = releasePhaseSamples x \<and>
   startupPhaseSamples (adsr_new x f) = startupPhaseSamples x"
  by (simp add: adsr_new_def)

text \<open>
  Claim C5 as the specification states it fails on a freshly constructed object: the
  decay time is 0.1 and not 100, the release time 0.2 and not 200, and the attack shape
  exponent is 2 and not 1.
\<close>

theorem C5_documented_defaults_counterexample:
  "\<not> (attackTime (adsr_new fresh_object 0) = 1 / 100 \<and>
      decayTime (adsr_new fresh_object 0) = 100 \<and>
      sustainLevel (adsr_new fresh_object 0) = 7 / 10 \<and>
      releaseTime (adsr_new fresh_object 0) = 200 \<and>
      attackShape (adsr_new fresh_object 0) = 1 \<and>
      releaseShape (adsr_new fresh_object 0) = 1 \<and>
      gain (adsr_new fresh_object 0) = 1 \<and>
      phase (adsr_new fresh_object 0) = Idle \<and>
      currentEnv (adsr_new fresh_object 0) = 0)"
  by (simp add: adsr_new_def)

text \<open>
  Claim C7, as amended. For every finite shape input \<open>f\<close> the shape setters store the
  double result of \<open>1 + clamp(f, -1, 1) * 0.9\<close> when \<open>f < 0\<close> and of
  \<open>1 + clamp(f, -1, 1) * 9\<close> otherwise, each operation and the literal 0.9 rounded to
  the nearest double. The literal is \<open>8106479329266893 / 2^53\<close>, just above \<open>9 / 10\<close>,
  so for negative inputs the stored exponent lies between \<open>1 - 0.9\<close> (as doubles:
  0.09999999999999998, just below 0.1) and 1; for non-negative inputs it lies in
  \<open>[1, 10]\<close>. With the exponent 1 the interpolation \<^verbatim>\<open>power_lerp\<close> is linear.
\<close>

theorem C7_shape_exponent:
  "(f < 0 \<longrightarrow>
      map_shape_to_exponent f =
        double_round (1 + double_round (std_clamp f (- 1) 1 * double_round (9 / 10))) \<and>
      1 - double_round (9 / 10) \<le> map_shape_to_exponent f \<and>
      map_shape_to_exponent f \<le> 1) \<and>
   (0 \<le> f \<longrightarrow>
      map_shape_to_exponent f = double_round (1 + double_round (std_clamp f (- 1) 1 * 9)) \<and>
      1 \<le> map_shape_to_exponent f \<and> map_shape_to_exponent f \<le> 10) \<and>
   double_round (9 / 10) = 8106479329266893 / 9007199254740992 \<and>
   1 - double_round (9 / 10) = 900719925474099 / 9007199254740992 \<and>
   1 - double_round (9 / 10) < 1 / 10 \<and>
   999999999999999 / 10000000000000000 < 1 - double_round (9 / 10) \<and>
   attackShape (adsr_attackshape x f) = map_shape_to_exponent f \<and>
   releaseShape (adsr_releaseshape x f) = map_shape_to_exponent f \<and>
   power_lerp start endv p 1 = Some (start + (endv - start) * p)"
proof -
  have neg: "f < 0 \<longrightarrow>
      map_shape_to_exponent f =
        double_round (1 + double_round (std_clamp f (- 1) 1 * double_round (9 / 10))) \<and>
      1 - double_round (9 / 10) \<le> map_shape_to_exponent f \<and>
      map_shape_to_exponent f \<le> 1"
    using map_shape_negative [of f] by blast
  have pos: "0 \<le> f \<longrightarrow>
      map_shape_to_exponent f = double_round (1 + double_round (std_clamp f (- 1) 1 * 9)) \<and>
      1 \<le> map_shape_to_exponent f \<and> map_shape_to_exponent f \<le> 10"
    using map_shape_nonnegative [of f] by blast
  have lit: "double_round (9 / 10) = 8106479329266893 / 9007199254740992"
    by (rule double_round_literal_09)
  have low: "1 - double_round (9 / 10) = 900719925474099 / 9007199254740992"
    "1 - double_round (9 / 10) < 1 / 10"
    "999999999999999 / 10000000000000000 < 1 - double_round (9 / 10)"
    by (simp_all add: lit)
  have set: "attackShape (adsr_attackshape x f) = map_shape_to_exponent f"
    "releaseShape (adsr_releaseshape x f) = map_shape_to_exponent f"
    by (simp_all add: adsr_attackshape_def adsr_releaseshape_def)
  have lin: "power_lerp start endv p 1 = Some (start + (endv - start) * p)"
    by (simp add: power_lerp_def)
  from neg pos lit low set lin show ?thesis by (intro conjI)
qed

theorem C7_shape_exponent_witness:
  "(- 1 / 2 :: real) < 0 \<and>
   attackShape (adsr_attackshape fresh_object (- 1 / 2)) =
     2476979795053773 / 4503599627370496 \<and>
   (0 :: real) \<le> 1 / 4 \<and>
   releaseShape (adsr_releaseshape fresh_object (1 / 4)) = 13 / 4 \<and>
   (- 7 :: real) < 0 \<and> map_shape_to_exponent (- 7) = 900719925474099 / 9007199254740992 \<and>
   (0 :: real) \<le> 7 \<and> map_shape_to_exponent 7 = 10"
proof -
  have c: "double_round (9 / 10) = 8106479329266893 / 9007199254740992"
    using C7_shape_exponent by blast
  have n1: "(- 1 / 2 :: real) < 0" and n2: "(- 7 :: real) < 0"
    and p1: "(0 :: real) \<le> 1 / 4" and p2: "(0 :: real) \<le> 7"
    by simp_all
  from n1 C7_shape_exponent [of "- 1 / 2" fresh_object]
  have "attackShape (adsr_attackshape fresh_object (- 1 / 2)) =
      double_round (1 + double_round (std_clamp (- 1 / 2) (- 1) 1 * double_round (9 / 10)))"
    by simp
  then have a: "attackShape (adsr_attackshape fresh_object (- 1 / 2)) =
      2476979795053773 / 4503599627370496"
    by (simp add: c std_clamp_def double_round_minus double_round_half_09
          double_round_1_minus_half_09)
  from p1 C7_shape_exponent [of "1 / 4" fresh_object]
  have "releaseShape (adsr_releaseshape fresh_object (1 / 4)) =
      double_round (1 + double_round (std_clamp (1 / 4) (- 1) 1 * 9))"
    by simp
  then have b: "releaseShape (adsr_releaseshape fresh_object (1 / 4)) = 13 / 4"
    by (simp add: std_clamp_def double_round_9_4 double_round_13_4)
  from n2 C7_shape_exponent [of "- 7"]
  have "map_shape_to_exponent (- 7) =
      double_round (1 + double_round (std_clamp (- 7) (- 1) 1 * double_round (9 / 10)))"
    by simp
  then have d: "map_shape_to_exponent (- 7) = 900719925474099 / 9007199254740992"
    by (simp add: c std_clamp_def double_round_minus double_round_09_exact
          double_round_1_minus_09)
  from p2 C7_shape_exponent [of 7]
  have "map_shape_to_exponent 7 = double_round (1 + double_round (std_clamp 7 (- 1) 1 * 9))"
    by simp
  then have e: "map_shape_to_exponent 7 = 10"
    by (simp add: std_clamp_def double_round_9 double_round_10)
  from n1 a p1 b n2 d p2 e show ?thesis by (intro conjI)
qed

text \<open>
  Claim C7 as the specification states it fails at the shape input \<open>- 1\<close>: the stored
  exponent is the double \<open>1 - 0.9 = 900719925474099 / 2^53\<close>, which is below \<open>0.1\<close>,
  outside the range \<open>[0.1, 1.0]\<close>.
\<close>

theorem C7_shape_below_tenth_counterexample:
  "(- 1 :: real) < 0 \<and>
   attackShape (adsr_attackshape fresh_object (- 1)) =
     900719925474099 / 9007199254740992 \<and>
   \<not> (1 / 10 \<le> attackShape (adsr_attackshape fresh_object (- 1)))"
  by (simp add: adsr_attackshape_def map_shape_to_exponent_def std_clamp_def Let_def
        double_round_literal_09 double_round_minus double_round_09_exact
        double_round_1_minus_09)

text \<open>
  Claim C8. The release setter stores \<open>clamp(f - 3, 0, 10000)\<close> when the object starts
  from silence (the flag \<^verbatim>\<open>startAtCurrentEnv\<close> is false) and \<open>clamp(f, 0, 10000)\<close>
  when it starts from the current envelope value.
\<close>

theorem C8_release_time:
  "(\<not> startAtCurrentEnv x \<longrightarrow>
      releaseTime (adsr_release x f) = std_clamp (f - 3) 0 10000) \<and>
   (startAtCurrentEnv x \<longrightarrow>
      releaseTime (adsr_release x f) = std_clamp f 0 10000)"
  by (simp add: adsr_release_def startupTime_def Let_def)

theorem C8_release_time_witness:
  "\<not> startAtCurrentEnv (adsr_new fresh_object 0) \<and>
   releaseTime (adsr_release (adsr_new fresh_object 0) 200) = 197 \<and>
   releaseTime (adsr_release (adsr_new fresh_object 0) 2) = 0 \<and>
   startAtCurrentEnv (adsr_new fresh_object 1) \<and>
   releaseTime (adsr_release (adsr_new fresh_object 1) 200) = 200"
proof -
  have m0: "\<not> startAtCurrentEnv (adsr_new fresh_object 0)"
    and m1: "startAtCurrentEnv (adsr_new fresh_object 1)"
    by (simp_all add: adsr_new_def)
  from m0 m1 C8_release_time [of "adsr_new fresh_object 0" 200]
    C8_release_time [of "adsr_new fresh_object 0" 2]
    C8_release_time [of "adsr_new fresh_object 1" 200]
  show ?thesis by (simp add: std_clamp_def)
qed

text \<open>
  Claim C9, as amended. For every finite input \<open>v\<close>, the attack, decay, sustain and
  gain setters store the clamp of their input to the parameter's range; the release
  setter stores the clamp of its input less 3 ms when the object starts from silence,
  and of the input itself otherwise; the shape setters store the exponent mapped from
  the input. The stored times lie in \<open>[0, 10000]\<close>, the sustain level and the gain in
  \<open>[0, 1]\<close>, and the shape exponents between the double \<open>1 - 0.9\<close>, which is
  \<open>900719925474099 / 2^53\<close> and just below \<open>0.1\<close>, and 10. Sending the same message
  twice leaves the object as sending it once does.
\<close>

theorem C9_setters_store_and_idempotent:
  "attackTime (adsr_attack x v) = std_clamp v 0 10000 \<and>
   decayTime (adsr_decay x v) = std_clamp v 0 10000 \<and>
   sustainLevel (adsr_sustain x v) = std_clamp v 0 1 \<and>
   gain (adsr_g x v) = std_clamp v 0 1 \<and>
   releaseTime (adsr_release x v) =
     std_clamp (v - (if startAtCurrentEnv x then 0 else 3)) 0 10000 \<and>
   attackShape (adsr_attackshape x v) = map_shape_to_exponent v \<and>
   releaseShape (adsr_releaseshape x v) = map_shape_to_exponent v \<and>
   0 \<le> attackTime (adsr_attack x v) \<and> attackTime (adsr_attack x v) \<le> 10000 \<and>
   0 \<le> decayTime (adsr_decay x v) \<and> decayTime (adsr_decay x v) \<le> 10000 \<and>
   0 \<le> releaseTime (adsr_release x v) \<and> releaseTime (adsr_release x v) \<le> 10000 \<and>
   0 \<le> sustainLevel (adsr_sustain x v) \<and> sustainLevel (adsr_sustain x v) \<le> 1 \<and>
   0 \<le> gain (adsr_g x v) \<and> gain (adsr_g x v) \<le> 1 \<and>
   900719925474099 / 9007199254740992 \<le> attackShape (adsr_attackshape x v) \<and>
   attackShape (adsr_attackshape x v) \<le> 10 \<and>
   900719925474099 / 9007199254740992 \<le> releaseShape (adsr_releaseshape x v) \<and>
   releaseShape (adsr_releaseshape x v) \<le> 10 \<and>
   adsr_attack (adsr_attack x v) v = adsr_attack x v \<and>
   adsr_decay (adsr_decay x v) v = adsr_decay x v \<and>
   adsr_release (adsr_release x v) v = adsr_release x v \<and>
   adsr_sustain (adsr_sustain x v) v = adsr_sustain x v \<and>
   adsr_attackshape (adsr_attackshape x v) v = adsr_attackshape x v \<and>
   adsr_releaseshape (adsr_releaseshape x v) v = adsr_releaseshape x v \<and>
   adsr_g (adsr_g x v) v = adsr_g x v"
proof -
  have stored: "attackTime (adsr_attack x v) = std_clamp v 0 10000"
    "decayTime (adsr_decay x v) = std_clamp v 0 10000"
    "sustainLevel (adsr_sustain x v) = std_clamp v 0 1"
    "gain (adsr_g x v) = std_clamp v 0 1"
    "releaseTime (adsr_release x v) =
       std_clamp (v - (if startAtCurrentEnv x then 0 else 3)) 0 10000"
    "attackShape (adsr_attackshape x v) = map_shape_to_exponent v"
    "releaseShape (adsr_releaseshape x v) = map_shape_to_exponent v"
    by (simp_all add: adsr_attack_def adsr_decay_def adsr_sustain_def adsr_g_def
          adsr_release_def adsr_attackshape_def adsr_releaseshape_def startupTime_def Let_def)
  have times: "0 \<le> std_clamp u 0 10000 \<and> std_clamp u 0 10000 \<le> 10000"
    and levels: "0 \<le> std_clamp u 0 1 \<and> std_clamp u 0 1 \<le> 1" for u
    by (simp_all add: std_clamp_def)
  have shape: "900719925474099 / 9007199254740992 \<le> map_shape_to_exponent v"
    "map_shape_to_exponent v \<le> 10"
    using map_shape_range [of v] by (simp_all add: double_round_literal_09)
  have idem: "adsr_attack (adsr_attack x v) v = adsr_attack x v"
    "adsr_decay (adsr_decay x v) v = adsr_decay x v"
    "adsr_release (adsr_release x v) v = adsr_release x v"
    "adsr_sustain (adsr_sustain x v) v = adsr_sustain x v"
    "adsr_attackshape (adsr_attackshape x v) v = adsr_attackshape x v"
    "adsr_releaseshape (adsr_releaseshape x v) v = adsr_releaseshape x v"
    "adsr_g (adsr_g x v) v = adsr_g x v"
    by (simp_all add: adsr_attack_def adsr_decay_def adsr_sustain_def adsr_g_def
          adsr_release_def adsr_attackshape_def adsr_releaseshape_def Let_def)
  show ?thesis
    unfolding stored
    using times [of v] times [of "v - (if startAtCurrentEnv x then 0 else 3)"]
      levels [of v] shape idem
    unfolding stored
    by (intro conjI) simp_all
qed

text \<open>
  Claim C9 as the specification states it fails for the release setter of an object that
  starts from silence: the message \<open>release 100\<close> stores 97, which is not the clamp of
  100 to \<open>[0, 10000]\<close>.
\<close>

theorem C9_release_not_clamp_counterexample:
  "releaseTime (adsr_release (adsr_new fresh_object 0) 100) = 97 \<and>
   releaseTime (adsr_release (adsr_new fresh_object 0) 100) \<noteq> std_clamp 100 0 10000"
  by (simp add: adsr_release_def adsr_new_def startupTime_def std_clamp_def Let_def)

text \<open>
  Claim C4, as amended. At a sample rate between 0 and 200 MHz, with
  \<^verbatim>\<open>sampleratems\<close> holding the double quotient of the sample rate by 1000 (as the
  block setup leaves it), every setter of a time stores the sample count
  \<open>max(1, floor(p))\<close>, where \<open>p\<close> is the double product of the time it has just stored
  and \<^verbatim>\<open>sampleratems\<close>, and the block setup stores the same for the 3 ms of the
  startup phase: the fractional part of the double product is discarded, it is not
  rounded to the nearest integer. Because the quotient and the product are rounded to
  doubles, the count can differ from \<open>max(1, floor(timeMs * sampleRate / 1000))\<close>,
  computed exactly, by 1 and by no more.
\<close>

theorem C4_sample_counts_truncated:
  assumes "0 \<le> samplerate x" and "samplerate x \<le> 200000000"
    and "sampleratems x = double_round (samplerate x / 1000)"
    and "0 \<le> s_sr" and "s_sr \<le> 200000000"
  shows
    "attackPhaseSamples (adsr_attack x f) =
       max 1 \<lfloor>double_round (attackTime (adsr_attack x f) *
                double_round (samplerate x / 1000))\<rfloor> \<and>
     \<bar>attackPhaseSamples (adsr_attack x f) -
        max 1 \<lfloor>attackTime (adsr_attack x f) * samplerate x / 1000\<rfloor>\<bar> \<le> 1 \<and>
     decayPhaseSamples (adsr_decay x f) =
       max 1 \<lfloor>double_round (decayTime (adsr_decay x f) *
                double_round (samplerate x / 1000))\<rfloor> \<and>
     \<bar>decayPhaseSamples (adsr_decay x f) -
        max 1 \<lfloor>decayTime (adsr_decay x f) * samplerate x / 1000\<rfloor>\<bar> \<le> 1 \<and>
     releasePhaseSamples (adsr_release x f) =
       max 1 \<lfloor>double_round (releaseTime (adsr_release x f) *
                double_round (samplerate x / 1000))\<rfloor> \<and>
     \<bar>releasePhaseSamples (adsr_release x f) -
        max 1 \<lfloor>releaseTime (adsr_release x f) * samplerate x / 1000\<rfloor>\<bar> \<le> 1 \<and>
     startupPhaseSamples (adsr_dsp x s_sr) =
       max 1 \<lfloor>double_round (3 * double_round (s_sr / 1000))\<rfloor> \<and>
     \<bar>startupPhaseSamples (adsr_dsp x s_sr) - max 1 \<lfloor>3 * s_sr / 1000\<rfloor>\<bar> \<le> 1 \<and>
     sampleratems (adsr_dsp x s_sr) = double_round (samplerate (adsr_dsp x s_sr) / 1000) \<and>
     samplerate (adsr_dsp x s_sr) = s_sr"
proof -
  let ?r = "samplerate x"
  have sr: "sampleratems x = double_round (?r / 1000)" by (rule assms(3))
  have range: "0 \<le> std_clamp u 0 10000" "std_clamp u 0 10000 \<le> 10000" for u
    by (simp_all add: std_clamp_def)
  note c = derived_count [OF assms(1,2) range]
  have ta: "attackTime (adsr_attack x f) = std_clamp f 0 10000"
    and td: "decayTime (adsr_decay x f) = std_clamp f 0 10000"
    and tr: "releaseTime (adsr_release x f) =
      std_clamp (f - (if startAtCurrentEnv x then 0 else 3)) 0 10000"
    by (simp_all add: adsr_attack_def adsr_decay_def adsr_release_def startupTime_def Let_def)
  have a: "attackPhaseSamples (adsr_attack x f) =
      max 1 \<lfloor>double_round (std_clamp f 0 10000 * double_round (?r / 1000))\<rfloor>"
    using c(1) [of f] by (simp add: adsr_attack_def Let_def sr)
  have d: "decayPhaseSamples (adsr_decay x f) =
      max 1 \<lfloor>double_round (std_clamp f 0 10000 * double_round (?r / 1000))\<rfloor>"
    using c(1) [of f] by (simp add: adsr_decay_def Let_def sr)
  have r: "releasePhaseSamples (adsr_release x f) =
      max 1 \<lfloor>double_round (std_clamp (f - (if startAtCurrentEnv x then 0 else 3)) 0 10000 *
                double_round (?r / 1000))\<rfloor>"
    using c(1) [of "f - 3"] c(1) [of f]
    by (cases "startAtCurrentEnv x") (simp_all add: adsr_release_def Let_def sr startupTime_def)
  have s: "startupPhaseSamples (adsr_dsp x s_sr) =
      max 1 \<lfloor>double_round (3 * double_round (s_sr / 1000))\<rfloor>"
    using derived_count(1) [OF assms(4,5), of 3]
    by (simp add: adsr_dsp_def Let_def startupTime_def)
  have m: "sampleratems (adsr_dsp x s_sr) = double_round (samplerate (adsr_dsp x s_sr) / 1000)"
    "samplerate (adsr_dsp x s_sr) = s_sr"
    by (simp_all add: adsr_dsp_def Let_def)
  have a': "\<bar>attackPhaseSamples (adsr_attack x f) -
        max 1 \<lfloor>attackTime (adsr_attack x f) * ?r / 1000\<rfloor>\<bar> \<le> 1"
    unfolding a ta by (rule c(2))
  have d': "\<bar>decayPhaseSamples (adsr_decay x f) -
        max 1 \<lfloor>decayTime (adsr_decay x f) * ?r / 1000\<rfloor>\<bar> \<le> 1"
    unfolding d td by (rule c(2))
  have r': "\<bar>releasePhaseSamples (adsr_release x f) -
        max 1 \<lfloor>releaseTime (adsr_release x f) * ?r / 1000\<rfloor>\<bar> \<le> 1"
    unfolding r tr by (rule c(2))
  have s': "\<bar>startupPhaseSamples (adsr_dsp x s_sr) - max 1 \<lfloor>3 * s_sr / 1000\<rfloor>\<bar> \<le> 1"
    unfolding s using derived_count(2) [OF assms(4,5), of 3] by simp
  from a a' d d' r r' s s' m show ?thesis unfolding ta td tr by (intro conjI)
qed

theorem C4_sample_counts_truncated_witness:
  "0 \<le> samplerate (adsr_dsp (adsr_new fresh_object 0) 37800) \<and>
   samplerate (adsr_dsp (adsr_new fresh_object 0) 37800) \<le> 200000000 \<and>
   sampleratems (adsr_dsp (adsr_new fresh_object 0) 37800) =
     double_round (samplerate (adsr_dsp (adsr_new fresh_object 0) 37800) / 1000) \<and>
   (0 :: real) \<le> 44100 \<and> (44100 :: real) \<le> 200000000 \<and>
   attackPhaseSamples (adsr_attack (adsr_dsp (adsr_new fresh_object 0) 37800) 25) = 944 \<and>
   max 1 \<lfloor>attackTime (adsr_attack (adsr_dsp (adsr_new fresh_object 0) 37800) 25) *
      samplerate (adsr_dsp (adsr_new fresh_object 0) 37800) / 1000\<rfloor> = (945 :: int) \<and>
   startupPhaseSamples (adsr_dsp (adsr_dsp (adsr_new fresh_object 0) 37800) 44100) = 132"
proof -
  let ?x = "adsr_dsp (adsr_new fresh_object 0) 37800"
  have r: "samplerate ?x = 37800" by (simp add: adsr_dsp_def Let_def)
  have h1: "0 \<le> samplerate ?x" and h2: "samplerate ?x \<le> 200000000"
    by (simp_all add: r)
  have h3: "sampleratems ?x = double_round (samplerate ?x / 1000)"
    by (simp add: adsr_dsp_def Let_def)
  have h4: "(0 :: real) \<le> 44100" and h5: "(44100 :: real) \<le> 200000000" by simp_all
  have t: "attackTime (adsr_attack ?x 25) = 25"
    by (simp add: adsr_attack_def Let_def std_clamp_def)
  from C4_sample_counts_truncated [OF h1 h2 h3 h4 h5, of 25]
  have "attackPhaseSamples (adsr_attack ?x 25) =
      max 1 \<lfloor>double_round (attackTime (adsr_attack ?x 25) *
                double_round (samplerate ?x / 1000))\<rfloor>"
    and "startupPhaseSamples (adsr_dsp ?x 44100) =
      max 1 \<lfloor>double_round (3 * double_round (44100 / 1000))\<rfloor>"
    by blast+
  then have a: "attackPhaseSamples (adsr_attack ?x 25) = 944"
    and s: "startupPhaseSamples (adsr_dsp ?x 44100) = 132"
    by (simp_all add: t r double_round_378_10 double_round_attack_25_37800
          double_round_441_10 double_round_startup_44100)
  have e: "max 1 \<lfloor>attackTime (adsr_attack ?x 25) * samplerate ?x / 1000\<rfloor> = (945 :: int)"
    by (simp add: t r)
  from h1 h2 h3 h4 h5 a e s show ?thesis by (intro conjI)
qed

text \<open>
  Claim C4 as the specification states it fails for an attack time of 0.0390625 ms at
  44100 Hz: the product is 1.72265625 samples, the setter stores 1, and rounding to the
  nearest integer gives 2.
\<close>

theorem C4_rounding_counterexample:
  "attackPhaseSamples (adsr_attack (adsr_dsp (adsr_new fresh_object 0) 44100) (5 / 128)) = 1 \<and>
   max 1 (round (attackTime (adsr_attack (adsr_dsp (adsr_new fresh_object 0) 44100) (5 / 128))
     * samplerate (adsr_attack (adsr_dsp (adsr_new fresh_object 0) 44100) (5 / 128))
     / 1000)) = 2 \<and>
   attackPhaseSamples (adsr_attack (adsr_dsp (adsr_new fresh_object 0) 44100) (5 / 128)) \<noteq>
     max 1 (round (attackTime (adsr_attack (adsr_dsp (adsr_new fresh_object 0) 44100) (5 / 128))
       * samplerate (adsr_attack (adsr_dsp (adsr_new fresh_object 0) 44100) (5 / 128))
       / 1000))"
  by (simp add: setter_defs round_def double_round_441_10 double_round_startup_44100
        double_round_5_128_44100)

section \<open>Properties of the triggers\<close>

text \<open>
  Claim C6. In the Idle and the Release phase a Stop leaves the whole object unchanged;
  in every other phase it captures the current envelope value as the start value of the
  phase, enters Release and resets the sample counter. A second Stop right after a
  first one is without effect, so the block rendered after two Stops is the block
  rendered after one.
\<close>

theorem C6_stop:
  "(phase x = Idle \<or> phase x = Release \<longrightarrow> adsr_trigger_stop x = x) \<and>
   (phase x \<noteq> Idle \<and> phase x \<noteq> Release \<longrightarrow>
      adsr_trigger_stop x =
        x\<lparr>phase := Release, phaseFunc := releasePhase_ptr,
          phaseStartEnv := currentEnv x, currentSample := 0\<rparr>) \<and>
   adsr_trigger_stop (adsr_trigger_stop x) = adsr_trigger_stop x \<and>
   adsr_perform (adsr_trigger_stop (adsr_trigger_stop x)) n =
     adsr_perform (adsr_trigger_stop x) n"
  by (auto simp add: adsr_trigger_stop_def enter_phase_def)

theorem C6_stop_witness:
  "phase (adsr_new fresh_object 1) = Idle \<and>
   adsr_trigger_stop (adsr_new fresh_object 1) = adsr_new fresh_object 1 \<and>
   phase (adsr_trigger_start (adsr_new fresh_object 1)) = Attack \<and>
   phase (adsr_trigger_stop (adsr_trigger_start (adsr_new fresh_object 1))) = Release \<and>
   currentSample (adsr_trigger_stop (adsr_trigger_start (adsr_new fresh_object 1))) = 0 \<and>
   phaseStartEnv (adsr_trigger_stop (adsr_trigger_start (adsr_new fresh_object 1))) =
     currentEnv (adsr_trigger_start (adsr_new fresh_object 1))"
proof -
  have i: "phase (adsr_new fresh_object 1) = Idle"
    by (simp add: adsr_new_def)
  have a: "phase (adsr_trigger_start (adsr_new fresh_object 1)) = Attack"
    by (simp add: adsr_new_def adsr_trigger_start_def enter_phase_def)
  from i C6_stop [of "adsr_new fresh_object 1"]
  have s1: "adsr_trigger_stop (adsr_new fresh_object 1) = adsr_new fresh_object 1"
    by simp
  from a C6_stop [of "adsr_trigger_start (adsr_new fresh_object 1)"]
  have s2: "adsr_trigger_stop (adsr_trigger_start (adsr_new fresh_object 1)) =
      (adsr_trigger_start (adsr_new fresh_object 1))
        \<lparr>phase := Release, phaseFunc := releasePhase_ptr,
          phaseStartEnv := currentEnv (adsr_trigger_start (adsr_new fresh_object 1)),
          currentSample := 0\<rparr>"
    by simp
  show ?thesis using i a s1 by (simp add: s2)
qed

section \<open>Properties of the phase engine\<close>

text \<open>
  Claim C10. From the entry into Release with the release shape exponent 1 and a sample
  count \<open>n\<close> of at least 2, the engine stays in Release for \<open>n - 1\<close> samples, sample \<open>i\<close>
  has the value \<open>start - start * i / (n - 1)\<close>, and the last sample, at the index
  \<open>n - 1\<close>, is computed at the progress \<open>(n - 1) / (n - 1) = 1\<close> and is exactly 0; with
  it the engine enters Idle.
\<close>

theorem C10_release_ends_at_zero:
  assumes "phaseFunc x = releasePhase_ptr" and "phase x = Release" and "currentSample x = 0"
    and "releaseShape x = 1" and "2 \<le> releasePhaseSamples x"
  shows "(\<exists>x1 out.
      adsr_perform x (nat (releasePhaseSamples x)) = Some (x1, out) \<and>
      length out = nat (releasePhaseSamples x) \<and>
      (\<forall>i < nat (releasePhaseSamples x).
         out ! i = (phaseStartEnv x - phaseStartEnv x *
            (real i / of_int (releasePhaseSamples x - 1))) * gain x) \<and>
      out ! nat (releasePhaseSamples x - 1) = 0 \<and>
      double_div (of_int (releasePhaseSamples x - 1)) (of_int (releasePhaseSamples x - 1)) =
        Some 1 \<and>
      currentEnv x1 = 0 \<and> phase x1 = Idle \<and> phaseFunc x1 = idlePhase_ptr) \<and>
    (\<forall>j < nat (releasePhaseSamples x). \<exists>xj outj.
      adsr_perform x j = Some (xj, outj) \<and> phase xj = Release)"
proof -
  let ?n = "releasePhaseSamples x"
  define k where "k = nat (?n - 1)"
  have k: "int k = ?n - 1" "nat ?n = Suc k" "0 < k" using assms(5) by (simp_all add: k_def)
  define st where "st i =
     (let x1 = x\<lparr>currentEnv := phaseStartEnv x + (0 - phaseStartEnv x) *
               (real i / of_int (?n - 1)), currentSample := int i + 1\<rparr>
      in if ?n \<le> int i + 1 then enter_phase x1 Idle else x1)" for i
  have ne: "?n \<noteq> 1" using assms(5) by simp
  have first: "call_phaseFunc x = Some (st 0)"
    using releasePhase_linear [OF assms(1) assms(4) ne] assms(3)
    by (simp add: st_def Let_def)
  have inside: "st i = x\<lparr>currentEnv := phaseStartEnv x + (0 - phaseStartEnv x) *
               (real i / of_int (?n - 1)), currentSample := int i + 1\<rparr>" if "i < k" for i
  proof -
    from that k(1) have "\<not> ?n \<le> int i + 1" by linarith
    then show ?thesis by (simp add: st_def Let_def)
  qed
  have steps: "call_phaseFunc (st i) = Some (st (Suc i))" if "i < k" for i
    unfolding inside [OF that]
    by (subst releasePhase_linear) (simp_all add: assms ne st_def Let_def add.commute)
  have traj: "\<exists>out. adsr_perform x (Suc j) = Some (st j, out) \<and> length out = Suc j \<and>
           (\<forall>i<Suc j. out ! i = currentEnv (st i) * gain (st i))" if "j \<le> k" for j
    by (rule adsr_perform_trajectory [of x st j, OF first]) (use that in \<open>simp add: steps\<close>)
  have part2: "\<forall>j < nat ?n. \<exists>xj outj. adsr_perform x j = Some (xj, outj) \<and> phase xj = Release"
  proof (intro allI impI)
    fix j assume j: "j < nat ?n"
    show "\<exists>xj outj. adsr_perform x j = Some (xj, outj) \<and> phase xj = Release"
    proof (cases j)
      case 0
      then show ?thesis by (simp add: assms(2))
    next
      case (Suc i)
      with j k(2) have i: "i < k" by simp
      then obtain out where "adsr_perform x (Suc i) = Some (st i, out)"
        using traj [of i] by auto
      moreover have "phase (st i) = Release" by (simp add: inside [OF i] assms(2))
      ultimately show ?thesis using Suc by simp
    qed
  qed
  obtain out where run: "adsr_perform x (Suc k) = Some (st k, out)"
    and len: "length out = Suc k"
    and vals: "\<forall>i<Suc k. out ! i = currentEnv (st i) * gain (st i)"
    using traj [of k] by auto
  have env: "currentEnv (st i) = phaseStartEnv x - phaseStartEnv x * (real i / of_int (?n - 1))"
    and g: "gain (st i) = gain x" for i
    by (simp_all add: st_def Let_def enter_phase_def)
  have "real_of_int (int k) = real_of_int (?n - 1)" by (simp only: k(1))
  then have rk: "real_of_int (?n - 1) = real k" by simp
  have "currentEnv (st k) = phaseStartEnv x - phaseStartEnv x * (real k / real k)"
    unfolding env rk ..
  then have stk0: "currentEnv (st k) = 0" using k(3) by simp
  have stk: "phase (st k) = Idle" "phaseFunc (st k) = idlePhase_ptr"
    using k(1) by (simp_all add: st_def Let_def enter_phase_def)
  have lastv: "out ! k = 0" using vals stk0 by simp
  have p1: "double_div (of_int (?n - 1)) (of_int (?n - 1)) = Some 1"
    using assms(5) by (simp add: double_div_def)
  have kk: "nat (?n - 1) = k" by (simp add: k_def)
  have part1: "\<exists>x1 out.
      adsr_perform x (nat ?n) = Some (x1, out) \<and>
      length out = nat ?n \<and>
      (\<forall>i < nat ?n. out ! i = (phaseStartEnv x - phaseStartEnv x *
            (real i / of_int (?n - 1))) * gain x) \<and>
      out ! nat (?n - 1) = 0 \<and>
      double_div (of_int (?n - 1)) (of_int (?n - 1)) = Some 1 \<and>
      currentEnv x1 = 0 \<and> phase x1 = Idle \<and> phaseFunc x1 = idlePhase_ptr"
    unfolding k(2) kk
    using run len vals lastv p1 stk0 stk
    by (intro exI [of _ "st k"] exI [of _ out] conjI allI impI) (simp_all add: env g)
  from part1 part2 show ?thesis by blast
qed

theorem C10_release_ends_at_zero_witness:
  "phaseFunc (adsr_trigger_stop (enter_phase (short_object\<lparr>currentEnv := 1 / 2\<rparr>) Sustain)) =
     releasePhase_ptr \<and>
   releaseShape (adsr_trigger_stop (enter_phase (short_object\<lparr>currentEnv := 1 / 2\<rparr>) Sustain)) = 1 \<and>
   releasePhaseSamples (adsr_trigger_stop (enter_phase (short_object\<lparr>currentEnv := 1 / 2\<rparr>) Sustain))
     = 2 \<and>
   (\<exists>x1 out.
      adsr_perform (adsr_trigger_stop (enter_phase (short_object\<lparr>currentEnv := 1 / 2\<rparr>) Sustain)) 2
        = Some (x1, out) \<and>
      out ! 0 = 1 / 2 \<and> out ! 1 = 0 \<and> currentEnv x1 = 0 \<and> phase x1 = Idle)"
proof -
  let ?y = "adsr_trigger_stop (enter_phase (short_object\<lparr>currentEnv := 1 / 2\<rparr>) Sustain)"
  have h: "phaseFunc ?y = releasePhase_ptr" "phase ?y = Release" "currentSample ?y = 0"
    "releaseShape ?y = 1" "2 \<le> releasePhaseSamples ?y"
    and f: "releasePhaseSamples ?y = 2" "phaseStartEnv ?y = 1 / 2" "gain ?y = 1"
    by (simp_all add: adsr_trigger_stop_def enter_phase_def short_object_eq)
  from C10_release_ends_at_zero [OF h] obtain x1 out where
    run: "adsr_perform ?y (nat (releasePhaseSamples ?y)) = Some (x1, out)"
    and vals: "\<forall>i < nat (releasePhaseSamples ?y).
         out ! i = (phaseStartEnv ?y - phaseStartEnv ?y *
            (real i / of_int (releasePhaseSamples ?y - 1))) * gain ?y"
    and fin: "currentEnv x1 = 0" "phase x1 = Idle"
    by blast
  from run have run2: "adsr_perform ?y 2 = Some (x1, out)" by (simp only: f) simp
  from vals have v: "\<forall>i<2. out ! i = 1 / 2 - 1 / 2 * real i" by (simp only: f) simp
  then have "out ! 0 = 1 / 2" "out ! 1 = 0" by simp_all
  with run2 fin h(1,4) f(1) show ?thesis by blast
qed

text \<open>
  Claim C3, as amended. When the object starts from the current envelope value, a Start
  in Idle with the envelope value 0 is followed by exactly \<open>n = attackPhaseSamples\<close>
  samples of Attack, sample \<open>i\<close> having the value \<open>(i / n)\<close> to the power of the attack
  shape exponent (times the gain at the outlet). The last Attack sample, at the index
  \<open>n - 1\<close>, is \<open>((n - 1) / n)\<close> to that power, which is below 1; with it the engine
  enters Decay, and it is the next sample, the first of Decay, that is exactly 1.
\<close>

theorem C3_attack_from_idle:
  assumes "startAtCurrentEnv x" and "phase x = Idle" and "currentEnv x = 0"
    and "1 \<le> attackPhaseSamples x" and "0 < attackShape x" and "1 \<le> decayPhaseSamples x"
  shows "(\<exists>x1 out x2.
      adsr_perform (adsr_trigger_start x) (nat (attackPhaseSamples x)) = Some (x1, out) \<and>
      length out = nat (attackPhaseSamples x) \<and>
      (\<forall>i < nat (attackPhaseSamples x).
         out ! i = (real i / of_int (attackPhaseSamples x)) powr attackShape x * gain x) \<and>
      currentEnv x1 =
        (of_int (attackPhaseSamples x - 1) / of_int (attackPhaseSamples x)) powr attackShape x \<and>
      currentEnv x1 < 1 \<and>
      phase x1 = Decay \<and> phaseFunc x1 = decayPhase_ptr \<and> currentSample x1 = 0 \<and>
      call_phaseFunc x1 = Some x2 \<and> currentEnv x2 = 1) \<and>
    (\<forall>j < nat (attackPhaseSamples x). \<exists>xj outj.
      adsr_perform (adsr_trigger_start x) j = Some (xj, outj) \<and> phase xj = Attack)"
proof -
  let ?n = "attackPhaseSamples x"
  let ?a = "attackShape x"
  define s where "s = adsr_trigger_start x"
  have s: "s = x\<lparr>phaseStartEnv := 0, phase := Attack, phaseFunc := attackPhase_ptr,
                  currentSample := 0\<rparr>"
    using assms(1,3) by (simp add: s_def adsr_trigger_start_def enter_phase_def)
  define k where "k = nat (?n - 1)"
  have k: "int k = ?n - 1" "nat ?n = Suc k" using assms(4) by (simp_all add: k_def)
  define st where "st i =
     (let x1 = s\<lparr>currentEnv := (real i / of_int ?n) powr ?a, currentSample := int i + 1\<rparr>
      in if ?n \<le> int i + 1 then enter_phase x1 Decay else x1)" for i
  have first: "call_phaseFunc s = Some (st 0)"
    by (subst attackPhase_rising) (simp_all add: s assms st_def Let_def)
  have inside: "st i = s\<lparr>currentEnv := (real i / of_int ?n) powr ?a, currentSample := int i + 1\<rparr>"
    if "i < k" for i
  proof -
    from that k(1) have "\<not> ?n \<le> int i + 1" by linarith
    then show ?thesis by (simp add: st_def Let_def)
  qed
  have steps: "call_phaseFunc (st i) = Some (st (Suc i))" if "i < k" for i
    unfolding inside [OF that]
    by (subst attackPhase_rising) (simp_all add: s assms st_def Let_def add.commute)
  have traj: "\<exists>out. adsr_perform s (Suc j) = Some (st j, out) \<and> length out = Suc j \<and>
           (\<forall>i<Suc j. out ! i = currentEnv (st i) * gain (st i))" if "j \<le> k" for j
    by (rule adsr_perform_trajectory [of s st j, OF first]) (use that in \<open>simp add: steps\<close>)
  have env: "currentEnv (st i) = (real i / of_int ?n) powr ?a" and g: "gain (st i) = gain x" for i
    by (simp_all add: st_def Let_def enter_phase_def s)
  have part2: "\<forall>j < nat ?n. \<exists>xj outj. adsr_perform s j = Some (xj, outj) \<and> phase xj = Attack"
  proof (intro allI impI)
    fix j assume j: "j < nat ?n"
    show "\<exists>xj outj. adsr_perform s j = Some (xj, outj) \<and> phase xj = Attack"
    proof (cases j)
      case 0
      then show ?thesis by (simp add: s)
    next
      case (Suc i)
      with j k(2) have i: "i < k" by simp
      then obtain out where "adsr_perform s (Suc i) = Some (st i, out)"
        using traj [of i] by auto
      moreover have "phase (st i) = Attack" by (simp add: inside [OF i] s)
      ultimately show ?thesis using Suc by simp
    qed
  qed
  obtain out where run: "adsr_perform s (Suc k) = Some (st k, out)"
    and len: "length out = Suc k"
    and vals: "\<forall>i<Suc k. out ! i = currentEnv (st i) * gain (st i)"
    using traj [of k] by auto
  have "real_of_int (int k) = real_of_int (?n - 1)" by (simp only: k(1))
  then have rk: "real k = real_of_int (?n - 1)" by simp
  have stk: "phase (st k) = Decay" "phaseFunc (st k) = decayPhase_ptr" "currentSample (st k) = 0"
    "decayPhaseSamples (st k) = decayPhaseSamples x"
    using k(1) by (simp_all add: st_def Let_def enter_phase_def s)
  have lt1: "(of_int (?n - 1) / of_int ?n) powr ?a < (1 :: real)"
  proof (cases "?n = 1")
    case True
    then show ?thesis by simp
  next
    case False
    then have "0 < (of_int (?n - 1) / of_int ?n :: real)"
      and "(of_int (?n - 1) / of_int ?n :: real) < 1"
      using assms(4) by simp_all
    then show ?thesis using assms(5) by (simp add: powr01_less_one)
  qed
  obtain x2 where x2: "call_phaseFunc (st k) = Some x2" "currentEnv x2 = 1"
    using decayPhase_first [of "st k"] assms(6) stk by auto
  have part1: "\<exists>x1 out x2.
      adsr_perform s (nat ?n) = Some (x1, out) \<and>
      length out = nat ?n \<and>
      (\<forall>i < nat ?n. out ! i = (real i / of_int ?n) powr ?a * gain x) \<and>
      currentEnv x1 = (of_int (?n - 1) / of_int ?n) powr ?a \<and>
      currentEnv x1 < 1 \<and>
      phase x1 = Decay \<and> phaseFunc x1 = decayPhase_ptr \<and> currentSample x1 = 0 \<and>
      call_phaseFunc x1 = Some x2 \<and> currentEnv x2 = 1"
    unfolding k(2)
    using run len vals stk x2 lt1
    by (intro exI [of _ "st k"] exI [of _ out] exI [of _ x2] conjI allI impI)
       (simp_all add: env g rk)
  from part1 part2 show ?thesis unfolding s_def by blast
qed

theorem C3_attack_from_idle_witness:
  "startAtCurrentEnv short_object \<and> phase short_object = Idle \<and>
   currentEnv short_object = 0 \<and> attackPhaseSamples short_object = 2 \<and>
   attackShape short_object = 1 \<and> decayPhaseSamples short_object = 2 \<and>
   (\<exists>x1 out x2.
      adsr_perform (adsr_trigger_start short_object) 2 = Some (x1, out) \<and>
      out ! 0 = 0 \<and> out ! 1 = 1 / 2 \<and> currentEnv x1 = 1 / 2 \<and> phase x1 = Decay \<and>
      call_phaseFunc x1 = Some x2 \<and> currentEnv x2 = 1)"
proof -
  have f: "attackPhaseSamples short_object = 2" "attackShape short_object = 1"
    "decayPhaseSamples short_object = 2" "gain short_object = 1"
    and h: "startAtCurrentEnv short_object" "phase short_object = Idle"
    "currentEnv short_object = 0" "1 \<le> attackPhaseSamples short_object"
    "0 < attackShape short_object" "1 \<le> decayPhaseSamples short_object"
    by (simp_all add: short_object_eq)
  from C3_attack_from_idle [OF h] obtain x1 out x2 where
    run: "adsr_perform (adsr_trigger_start short_object)
        (nat (attackPhaseSamples short_object)) = Some (x1, out)"
    and vals: "\<forall>i < nat (attackPhaseSamples short_object).
         out ! i = (real i / of_int (attackPhaseSamples short_object)) powr
           attackShape short_object * gain short_object"
    and last: "currentEnv x1 = (of_int (attackPhaseSamples short_object - 1) /
         of_int (attackPhaseSamples short_object)) powr attackShape short_object"
    and fin: "phase x1 = Decay" "call_phaseFunc x1 = Some x2" "currentEnv x2 = 1"
    by blast
  from run have run2: "adsr_perform (adsr_trigger_start short_object) 2 = Some (x1, out)"
    by (simp only: f) simp
  from vals have vs: "\<forall>i<2. out ! i = real i / 2" by (simp only: f) simp
  have "out ! 0 = real 0 / 2" by (rule vs [rule_format]) simp
  moreover have "out ! 1 = real 1 / 2" by (rule vs [rule_format]) simp
  ultimately have v: "out ! 0 = 0" "out ! 1 = 1 / 2" by simp_all
  from last have l: "currentEnv x1 = 1 / 2" by (simp only: f) simp
  from run2 v l fin h(1-3) f(1-3) show ?thesis by blast
qed

text \<open>
  Claim C3 as the specification states it fails for an attack of 2 samples with a
  linear shape: the two Attack samples are 0 and 0.5, so the last Attack sample is 0.5
  and not 1.
\<close>

theorem C3_last_attack_sample_counterexample:
  "startAtCurrentEnv short_object \<and> phase short_object = Idle \<and>
   currentEnv short_object = 0 \<and> attackPhaseSamples short_object = 2 \<and>
   map_option snd (adsr_perform (adsr_trigger_start short_object) 2) = Some [0, 1 / 2] \<and>
   map_option (phase \<circ> fst) (adsr_perform (adsr_trigger_start short_object) 1) = Some Attack \<and>
   map_option (phase \<circ> fst) (adsr_perform (adsr_trigger_start short_object) 2) = Some Decay \<and>
   map_option (currentEnv \<circ> fst) (adsr_perform (adsr_trigger_start short_object) 2) \<noteq> Some 1"
  by (simp add: short_object_eq adsr_trigger_start_def phase_defs eval_nat_numeral)




text \<open>
  Claim C1 fails on the code. Every sample count is floored at 1, and the Startup,
  Attack and Decay phases divide by the count itself; the Release phase divides by the
  count less one. The message \<open>release 0\<close> passes the clamping setter and stores the
  count 1; after a Start and a Stop the first Release sample divides 0 by 0.
\<close>

theorem C1_release_divides_by_zero:
  "releaseTime zero_release_object = 0 \<and>
   releasePhaseSamples zero_release_object = 1 \<and>
   phase (adsr_trigger_stop (adsr_trigger_start zero_release_object)) = Release \<and>
   currentSample (adsr_trigger_stop (adsr_trigger_start zero_release_object)) = 0 \<and>
   double_div
     (of_int (currentSample (adsr_trigger_stop (adsr_trigger_start zero_release_object))))
     (of_int (releasePhaseSamples (adsr_trigger_stop (adsr_trigger_start zero_release_object))
        - 1)) = None \<and>
   call_phaseFunc (adsr_trigger_stop (adsr_trigger_start zero_release_object)) = None \<and>
   adsr_perform (adsr_trigger_stop (adsr_trigger_start zero_release_object)) 1 = None"
  by (simp add: zero_release_object_eq adsr_trigger_start_def adsr_trigger_stop_def phase_defs)

end
